theory Spec2Isabelle
  imports Main "HOL-Library.Multiset"
begin

section \<open>Instants and the calendar of the standard library\<close>

text \<open>
  The program reads the clock, converts epoch seconds to instants, takes the calendar
  date of an instant, builds an instant from a calendar date and compares instants. These
  operations belong to Go's standard package \<open>time\<close>; the program only calls them. They
  are modelled after the library's source (the one with \<open>Time.abs\<close>, \<open>absDate\<close> and
  \<open>daysSinceEpoch\<close>), with its 64-bit arithmetic: a signed sum is wrapped by \<open>wrap64\<close>,
  an unsigned one by \<open>uint64\<close>.

  Every instant of the program has been through \<open>UTC()\<close> or comes from \<open>time.Date\<close>
  with \<open>time.UTC\<close>, so it carries no monotonic clock reading and its location is UTC.
  What is left of \<open>time.Time\<close> is the field \<open>ext\<close>, the seconds since 1 January of
  year 1 as a signed 64-bit number, here \<open>extSeconds\<close>, and the nanoseconds within the
  second. Two instants are the same map key exactly when both agree.
\<close>

record Time =
  extSeconds :: int
  Nanosecond :: int

text \<open>The value of a sum in \<open>int64\<close>, and in \<open>uint64\<close>.\<close>

definition wrap64 :: "int \<Rightarrow> int" where
  "wrap64 x = (x + 9223372036854775808) mod 18446744073709551616 - 9223372036854775808"

definition uint64 :: "int \<Rightarrow> int" where
  "uint64 x = x mod 18446744073709551616"

definition secondsPerDay :: int where "secondsPerDay = 86400"
definition daysPer400Years :: int where "daysPer400Years = 365 * 400 + 97"
definition daysPer100Years :: int where "daysPer100Years = 365 * 100 + 24"
definition daysPer4Years :: int where "daysPer4Years = 365 * 4 + 1"

text \<open>
  The zero year of the absolute seconds, and the offsets between the absolute, the
  internal (year 1) and the Unix (1970) seconds. The library writes the first offset as
  \<open>(absoluteZeroYear - internalYear) * 365.2425 * secondsPerDay\<close>; 365.2425 days are
  31556952 seconds.
\<close>

definition absoluteZeroYear :: int where "absoluteZeroYear = - 292277022399"

definition absoluteToInternal :: int where
  "absoluteToInternal = (absoluteZeroYear - 1) * 31556952"

definition internalToAbsolute :: int where
  "internalToAbsolute = - absoluteToInternal"

definition unixToInternal :: int where
  "unixToInternal = (1969 * 365 + 1969 div 4 - 1969 div 100 + 1969 div 400) * secondsPerDay"

definition internalToUnix :: int where
  "internalToUnix = - unixToInternal"

definition daysBefore :: "int list" where
  "daysBefore = [0, 31, 59, 90, 120, 151, 181, 212, 243, 273, 304, 334, 365]"

definition isLeap :: "int \<Rightarrow> bool" where
  "isLeap year = (year mod 4 = 0 \<and> (year mod 100 \<noteq> 0 \<or> year mod 400 = 0))"

text \<open>\<open>time.Unix(sec, nsec).UTC()\<close>: nanoseconds outside one second carry into the seconds.\<close>

definition timeUnix :: "int \<Rightarrow> int \<Rightarrow> Time" where
  "timeUnix sec nsec =
     \<lparr>extSeconds = wrap64 (wrap64 (sec + nsec div 1000000000) + unixToInternal),
      Nanosecond = nsec mod 1000000000\<rparr>"

text \<open>\<open>t.Unix()\<close>.\<close>

definition Unix :: "Time \<Rightarrow> int" where
  "Unix t = wrap64 (extSeconds t + internalToUnix)"

text \<open>\<open>t.abs()\<close>: the seconds since 1 January of the absolute zero year, unsigned.\<close>

definition absSeconds :: "Time \<Rightarrow> int" where
  "absSeconds t = uint64 (Unix t + (unixToInternal + internalToAbsolute))"

text \<open>
  The years since the absolute zero year and the day within the year (from 0) of a
  number of days. The quantities of this computation and of the next ones stay far
  below \<open>2 ^ 64\<close> for every number of days that 64 bits of seconds can hold.
\<close>

definition absYearDay :: "int \<Rightarrow> int \<times> int" where
  "absYearDay d0 =
    (let n400 = d0 div daysPer400Years;
         d1 = d0 - daysPer400Years * n400;
         c = d1 div daysPer100Years;
         n100 = c - c div 4;
         d2 = d1 - daysPer100Years * n100;
         n4 = d2 div daysPer4Years;
         d3 = d2 - daysPer4Years * n4;
         q = d3 div 365;
         n1 = q - q div 4;
         d4 = d3 - 365 * n1
     in (400 * n400 + 100 * n100 + 4 * n4 + n1, d4))"

text \<open>\<open>absDate\<close>: year, month (1 to 12) and day of the month (from 1) of absolute seconds.\<close>

definition absDate :: "int \<Rightarrow> int \<times> int \<times> int" where
  "absDate a =
    (let (y, yday) = absYearDay (a div secondsPerDay);
         year = y + absoluteZeroYear
     in
     if isLeap year \<and> yday = 31 + 29 - 1 then (year, 2, 29)
     else
       let day = (if isLeap year \<and> yday > 31 + 29 - 1 then yday - 1 else yday);
           m = day div 31;
           e = daysBefore ! nat (m + 1);
           (month, begin) = (if day \<ge> e then (m + 1, e) else (m, daysBefore ! nat m))
       in (year, month + 1, day - begin + 1))"

definition Year :: "Time \<Rightarrow> int" where
  "Year t = (case absDate (absSeconds t) of (year, month, day) \<Rightarrow> year)"

definition Month :: "Time \<Rightarrow> int" where
  "Month t = (case absDate (absSeconds t) of (year, month, day) \<Rightarrow> month)"

definition Day :: "Time \<Rightarrow> int" where
  "Day t = (case absDate (absSeconds t) of (year, month, day) \<Rightarrow> day)"

definition Hour :: "Time \<Rightarrow> int" where
  "Hour t = (absSeconds t mod secondsPerDay) div 3600"

definition Minute :: "Time \<Rightarrow> int" where
  "Minute t = (absSeconds t mod 3600) div 60"

definition Second :: "Time \<Rightarrow> int" where
  "Second t = absSeconds t mod 60"

text \<open>Sunday is 0; the first day of the absolute seconds is a Monday.\<close>

definition Weekday :: "Time \<Rightarrow> int" where
  "Weekday t = (uint64 (absSeconds t + 1 * secondsPerDay) mod (7 * secondsPerDay))
               div secondsPerDay"

text \<open>\<open>norm\<close> carries an out-of-range low field into the high field.\<close>

definition norm :: "int \<Rightarrow> int \<Rightarrow> int \<Rightarrow> int \<times> int" where
  "norm hi lo base =
    (let (hi1, lo1) = (if lo < 0 then (let n = (- lo - 1) div base + 1 in (hi - n, lo + n * base))
                       else (hi, lo))
     in if lo1 \<ge> base then (let n = lo1 div base in (hi1 + n, lo1 - n * base))
        else (hi1, lo1))"

text \<open>\<open>daysSinceEpoch\<close>: the days from the absolute zero year to 1 January of the year.\<close>

definition daysSinceEpoch :: "int \<Rightarrow> int" where
  "daysSinceEpoch year =
    (let y = uint64 (year - absoluteZeroYear);
         n400 = y div 400;
         y1 = y - 400 * n400;
         n100 = y1 div 100;
         y2 = y1 - 100 * n100;
         n4 = y2 div 4;
         y3 = y2 - 4 * n4
     in uint64 (daysPer400Years * n400 + daysPer100Years * n100 + daysPer4Years * n4
                + 365 * y3))"

text \<open>\<open>time.Date(year, month, day, hour, min, sec, nsec, time.UTC)\<close>.\<close>

definition Date :: "int \<Rightarrow> int \<Rightarrow> int \<Rightarrow> int \<Rightarrow> int \<Rightarrow> int \<Rightarrow> int \<Rightarrow> Time" where
  "Date year month day hour minute sec nsec =
    (let (year1, m) = norm year (month - 1) 12;
         month1 = m + 1;
         (sec1, nsec1) = norm sec nsec 1000000000;
         (min1, sec2) = norm minute sec1 60;
         (hour1, min2) = norm hour min1 60;
         (day1, hour2) = norm day hour1 24;
         d = uint64 (daysSinceEpoch year1 + daysBefore ! nat (month1 - 1)
                     + (if isLeap year1 \<and> month1 \<ge> 3 then 1 else 0) + (day1 - 1));
         a = uint64 (d * secondsPerDay + (hour2 * 3600 + min2 * 60 + sec2));
         unix = wrap64 (wrap64 a + (absoluteToInternal + internalToUnix))
     in \<lparr>extSeconds = wrap64 (unix + unixToInternal), Nanosecond = nsec1\<rparr>)"

definition AddDate :: "Time \<Rightarrow> int \<Rightarrow> int \<Rightarrow> int \<Rightarrow> Time" where
  "AddDate t years months days =
     Date (Year t + years) (Month t + months) (Day t + days)
          (Hour t) (Minute t) (Second t) (Nanosecond t)"

text \<open>\<open>t.After(u)\<close> compares the internal seconds, then the nanoseconds.\<close>

definition After :: "Time \<Rightarrow> Time \<Rightarrow> bool" where
  "After t u = (extSeconds t > extSeconds u
                \<or> (extSeconds t = extSeconds u \<and> Nanosecond t > Nanosecond u))"

section \<open>Formatting\<close>

text \<open>
  Go strings are byte sequences; a symbol outside ASCII is written as its UTF-8 bytes.
\<close>

fun digitsOf :: "nat \<Rightarrow> string" where
  "digitsOf n =
     (if n < 10 then [''0123456789'' ! n]
      else digitsOf (n div 10) @ [''0123456789'' ! (n mod 10)])"

declare digitsOf.simps [simp del]

text \<open>The verb \<open>%d\<close> on an integer.\<close>

definition itoa :: "int \<Rightarrow> string" where
  "itoa i = (if i < 0 then CHR ''-'' # digitsOf (nat (- i)) else digitsOf (nat i))"

text \<open>Two digits, zero padded, for a field between 0 and 99 (layout elements 02 and 04).\<close>

definition pad2 :: "int \<Rightarrow> string" where
  "pad2 i = (if i < 10 then CHR ''0'' # itoa i else itoa i)"

definition longDayNames :: "string list" where
  "longDayNames = [''Sunday'', ''Monday'', ''Tuesday'', ''Wednesday'', ''Thursday'',
                   ''Friday'', ''Saturday'']"

definition shortMonthNames :: "string list" where
  "shortMonthNames = [''Jan'', ''Feb'', ''Mar'', ''Apr'', ''May'', ''Jun'', ''Jul'', ''Aug'',
                      ''Sep'', ''Oct'', ''Nov'', ''Dec'']"

text \<open>\<open>day.Format("Monday (Jan 02)")\<close>.\<close>

definition formatDay :: "Time \<Rightarrow> string" where
  "formatDay t = longDayNames ! nat (Weekday t) @ '' ('' @ shortMonthNames ! nat (Month t - 1)
                 @ '' '' @ pad2 (Day t) @ '')''"

text \<open>\<open>t.Format("3:04 PM")\<close>.\<close>

definition formatClock :: "Time \<Rightarrow> string" where
  "formatClock t =
     (let hr = Hour t mod 12;
          hr12 = (if hr = 0 then 12 else hr)
      in itoa hr12 @ '':'' @ pad2 (Minute t) @ '' ''
         @ (if Hour t \<ge> 12 then ''PM'' else ''AM''))"

fun bitlen :: "nat \<Rightarrow> nat" where
  "bitlen n = (if n = 0 then 0 else Suc (bitlen (n div 2)))"

declare bitlen.simps [simp del]

text \<open>
  The conversion \<open>float32(score)\<close> of an integer: the nearest value with 24 significant
  bits, ties to the even one. The value is a whole number again, so it is kept as an integer.
\<close>

definition float32 :: "int \<Rightarrow> int" where
  "float32 i =
     (let n = nat \<bar>i\<bar>;
          sh = bitlen n - 24;
          q = n div 2 ^ sh;
          r = n mod 2 ^ sh;
          half = 2 ^ sh div 2;
          up = (r > half \<or> (r = half \<and> sh > 0 \<and> odd q));
          m = (if up then q + 1 else q) * 2 ^ sh
      in if i < 0 then - int m else int m)"

text \<open>The verb \<open>%.0f\<close> on a whole number prints its decimal digits.\<close>

definition fmtFloat0 :: "int \<Rightarrow> string" where
  "fmtFloat0 v = itoa v"

section \<open>Data model\<close>

text \<open>
  \<open>AiringSchedule\<close> nests two anonymous structs, \<open>Media\<close> and inside it \<open>Title\<close>. The
  fields of the nested structs are prefixed here, since \<open>ShowInfo\<close> has fields of the
  same names.
\<close>

record MediaTitle =
  Romaji :: string
  English :: string

record Media =
  MediaTitle :: MediaTitle
  MediaAverageScore :: int

record AiringSchedule =
  Episode :: int
  AiringAt :: int
  Media :: Media

record ShowInfo =
  Title :: string
  EpisodeNumber :: int
  AverageScore :: int
  AiringTime :: Time

text \<open>
  The map \<open>map[time.Time][]ShowInfo\<close> is a list of key and value pairs with distinct
  keys. The order of the pairs is not observable by the program: iterating over the map
  yields the keys in an order the runtime chooses (see \<open>renderOutput\<close>).
\<close>

type_synonym DayBuckets = "(Time \<times> ShowInfo list) list"

text \<open>\<open>m[k]\<close> as an expression: the zero value, an empty slice, when the key is absent.\<close>

fun mapIndex :: "DayBuckets \<Rightarrow> Time \<Rightarrow> ShowInfo list" where
  "mapIndex [] k = []"
| "mapIndex ((k', v) # m) k = (if k' = k then v else mapIndex m k)"

text \<open>\<open>m[k] = v\<close>.\<close>

fun mapAssign :: "DayBuckets \<Rightarrow> Time \<Rightarrow> ShowInfo list \<Rightarrow> DayBuckets" where
  "mapAssign [] k v = [(k, v)]"
| "mapAssign ((k', v') # m) k v = (if k' = k then (k, v) # m else (k', v') # mapAssign m k v)"

section \<open>The organizer\<close>

fun organizeLoop :: "AiringSchedule list \<Rightarrow> DayBuckets \<Rightarrow> DayBuckets" where
  "organizeLoop [] showsByDay = showsByDay"
| "organizeLoop (schedule # rest) showsByDay =
    (let title = (if English (MediaTitle (Media schedule)) = ''''
                  then Romaji (MediaTitle (Media schedule))
                  else English (MediaTitle (Media schedule)));
         airTime = timeUnix (AiringAt schedule) 0;
         dayKey = Date (Year airTime) (Month airTime) (Day airTime) 0 0 0 0
     in organizeLoop rest
          (mapAssign showsByDay dayKey
             (mapIndex showsByDay dayKey @
              [\<lparr>Title = title,
                EpisodeNumber = Episode schedule,
                AverageScore = MediaAverageScore (Media schedule),
                AiringTime = airTime\<rparr>])))"

definition organizeShowsByDay :: "AiringSchedule list \<Rightarrow> DayBuckets" where
  "organizeShowsByDay schedules = organizeLoop schedules []"

section \<open>The renderer\<close>

text \<open>
  The styles come from the terminal styling library. What a style renders depends on the
  terminal, so each style is a parameter: a function from the text to the styled text.
  \<open>bulletStyle\<close> is the style built in place for the separator and \<open>errorStyle\<close> the one
  built in \<open>printError\<close>.
\<close>

record styles =
  titleStyle :: "string \<Rightarrow> string"
  episodeStyle :: "string \<Rightarrow> string"
  timeStyle :: "string \<Rightarrow> string"
  scoreStyle :: "string \<Rightarrow> string"
  noScoreStyle :: "string \<Rightarrow> string"
  dayHeaderStyle :: "string \<Rightarrow> string"
  dividerStyle :: "string \<Rightarrow> string"
  showEntryStyle :: "string \<Rightarrow> string"
  appStyle :: "string \<Rightarrow> string"
  bulletStyle :: "string \<Rightarrow> string"
  errorStyle :: "string \<Rightarrow> string"

definition newline :: string where "newline = [CHR 0x0A]"
definition tab :: string where "tab = [CHR 0x09]"

text \<open>The symbols of the report, as UTF-8: sparkles, glowing star, satellite antenna,
  television, three o'clock, bullet, black star and the dash of the divider.\<close>

definition sparkles :: string where "sparkles = [CHR 0xE2, CHR 0x9C, CHR 0xA8]"
definition glowingStar :: string where "glowingStar = [CHR 0xF0, CHR 0x9F, CHR 0x8C, CHR 0x9F]"
definition antenna :: string where "antenna = [CHR 0xF0, CHR 0x9F, CHR 0x93, CHR 0xA1]"
definition television :: string where "television = [CHR 0xF0, CHR 0x9F, CHR 0x93, CHR 0xBA]"
definition clockFace :: string where "clockFace = [CHR 0xF0, CHR 0x9F, CHR 0x95, CHR 0x92]"
definition bullet :: string where "bullet = [CHR 0xE2, CHR 0x80, CHR 0xA2]"
definition blackStar :: string where "blackStar = [CHR 0xE2, CHR 0x98, CHR 0x85]"
definition dash :: string where "dash = [CHR 0xE2, CHR 0x95, CHR 0x8C]"

text \<open>The string set on \<open>dividerStyle\<close>: 27 dashes.\<close>

definition dividerString :: string where
  "dividerString = concat (replicate 27 dash)"

definition renderScore :: "styles \<Rightarrow> int \<Rightarrow> string" where
  "renderScore sty score =
     (if score > 0 then scoreStyle sty (blackStar @ '' '' @ fmtFloat0 (float32 score) @ ''/100'')
      else noScoreStyle sty (blackStar @ '' No rating''))"

text \<open>
  The output builder is kept as the list of the strings written to it, each labelled by
  the statement that writes it; the text of the builder is their concatenation.
\<close>

datatype chunk =
  DayHeader string
  | Divider string
  | ShowLine string
  | Spacer string

fun chunkText :: "chunk \<Rightarrow> string" where
  "chunkText (DayHeader s) = s"
| "chunkText (Divider s) = s"
| "chunkText (ShowLine s) = s"
| "chunkText (Spacer s) = s"

definition builderString :: "chunk list \<Rightarrow> string" where
  "builderString out = concat (map chunkText out)"

text \<open>The status marker of a show: the body of the conditional on the average score.\<close>

definition emojiOf :: "int \<Rightarrow> string" where
  "emojiOf score =
     (if score > 75 then glowingStar
      else if score = 0 then antenna
      else sparkles)"

text \<open>The styled line of one show, before the line break.\<close>

definition showEntry :: "styles \<Rightarrow> ShowInfo \<Rightarrow> string" where
  "showEntry sty show =
     (let emoji = emojiOf (AverageScore show)
      in showEntryStyle sty
           (emoji @ '' '' @
            titleStyle sty (Title show) @
            bulletStyle sty ('' '' @ bullet @ '' '') @
            episodeStyle sty (''Ep '' @ itoa (EpisodeNumber show)) @
            timeStyle sty ('' '' @ clockFace @ '' '' @ formatClock (AiringTime show)) @
            renderScore sty (AverageScore show)))"

fun showsLoop :: "styles \<Rightarrow> ShowInfo list \<Rightarrow> chunk list \<Rightarrow> chunk list" where
  "showsLoop sty [] out = out"
| "showsLoop sty (show # rest) out =
     showsLoop sty rest (out @ [ShowLine (showEntry sty show @ newline)])"

text \<open>
  The loop over the sorted days: \<open>days\<close> is the whole slice, \<open>i\<close> the index of the next
  day and the fourth argument the days still to come.
\<close>

fun daysLoop ::
  "styles \<Rightarrow> DayBuckets \<Rightarrow> Time list \<Rightarrow> nat \<Rightarrow> Time list \<Rightarrow> chunk list \<Rightarrow> chunk list" where
  "daysLoop sty showsByDay days i [] out = out"
| "daysLoop sty showsByDay days i (day # rest) out =
    (let shows = mapIndex showsByDay day;
         dayFormatted = formatDay day;
         header = dayHeaderStyle sty (television @ '' '' @ dayFormatted);
         out1 = out @ [DayHeader (header @ newline)];
         out2 = out1 @ [Divider (dividerStyle sty dividerString @ newline)];
         out3 = showsLoop sty shows out2;
         out4 = (if int i < int (length days) - 1 then out3 @ [Spacer newline] else out3)
     in daysLoop sty showsByDay days (Suc i) rest out4)"

text \<open>
  \<open>sort.Slice(days, less)\<close> belongs to the standard library; it is modelled as insertion
  sort under the comparison it is given. The keys of a map are distinct, and on distinct
  instants the order \<open>After\<close> leaves one sorted arrangement only (lemma
  \<open>sorted_After_unique\<close> below), so every sorting algorithm returns the same slice.
\<close>

fun insertBy :: "('a \<Rightarrow> 'a \<Rightarrow> bool) \<Rightarrow> 'a \<Rightarrow> 'a list \<Rightarrow> 'a list" where
  "insertBy lt x [] = [x]"
| "insertBy lt x (y # ys) = (if lt x y then x # y # ys else y # insertBy lt x ys)"

fun sortSlice :: "('a \<Rightarrow> 'a \<Rightarrow> bool) \<Rightarrow> 'a list \<Rightarrow> 'a list" where
  "sortSlice lt [] = []"
| "sortSlice lt (x # xs) = insertBy lt x (sortSlice lt xs)"

text \<open>
  The days in the order of the report. \<open>ks\<close> is the sequence of keys that the iteration
  over the map yields; the runtime chooses the order.
\<close>

definition sortedDays :: "Time list \<Rightarrow> Time list" where
  "sortedDays ks = sortSlice After ks"

text \<open>The writes to the builder, in order.\<close>

definition renderChunks :: "styles \<Rightarrow> Time list \<Rightarrow> DayBuckets \<Rightarrow> chunk list" where
  "renderChunks sty ks showsByDay =
     (let days = sortedDays ks
      in daysLoop sty showsByDay days 0 days [])"

section \<open>The program\<close>

text \<open>
  What the program does to the outside is recorded as a trace: a line printed to the
  standard output, the one HTTP request, and the deferred closing of the response body.
\<close>

datatype event =
  Println string
  | HttpPost string string string
  | CloseBody

text \<open>\<open>renderOutput\<close> prints the builder's text inside the outer container.\<close>

definition renderOutput :: "styles \<Rightarrow> Time list \<Rightarrow> DayBuckets \<Rightarrow> event list" where
  "renderOutput sty ks showsByDay =
     [Println (appStyle sty (builderString (renderChunks sty ks showsByDay)))]"

text \<open>An error value is known to the program by its message only.\<close>

datatype error = Error string

fun errorMessage :: "error \<Rightarrow> string" where
  "errorMessage (Error msg) = msg"

definition printError :: "styles \<Rightarrow> string \<Rightarrow> error \<Rightarrow> event list" where
  "printError sty context err = [Println (errorStyle sty (context @ '': '' @ errorMessage err))]"

text \<open>
  The outside world of one run: the clock, the JSON encoder and decoder, the HTTP
  client, the reader of the response body, and the order in which the runtime iterates
  over a map with the given keys.
\<close>

record 'r world =
  timeNow :: Time
  jsonMarshal :: "string \<Rightarrow> error + string"
  httpPost :: "string \<Rightarrow> string \<Rightarrow> string \<Rightarrow> error + 'r"
  readAll :: "'r \<Rightarrow> error + string"
  jsonUnmarshal :: "string \<Rightarrow> error + AiringSchedule list"
  mapRange :: "Time list \<Rightarrow> Time list"

text \<open>The query text for a window from \<open>since\<close> to \<open>until\<close>, both in epoch seconds.\<close>

definition queryText :: "int \<Rightarrow> int \<Rightarrow> string" where
  "queryText since until = concat
     [newline,
      tab, ''{'', newline,
      tab, tab, ''Page(perPage: 100) {'', newline,
      tab, tab, tab, ''airingSchedules(airingAt_greater: '', itoa since,
         '', airingAt_lesser: '', itoa until, '', sort: TIME_DESC) {'', newline,
      tab, tab, tab, tab, ''episode'', newline,
      tab, tab, tab, tab, ''airingAt'', newline,
      tab, tab, tab, tab, ''media {'', newline,
      tab, tab, tab, tab, tab, ''title {'', newline,
      tab, tab, tab, tab, tab, tab, ''romaji'', newline,
      tab, tab, tab, tab, tab, tab, ''english'', newline,
      tab, tab, tab, tab, tab, ''}'', newline,
      tab, tab, tab, tab, tab, ''averageScore'', newline,
      tab, tab, tab, tab, ''}'', newline,
      tab, tab, tab, ''}'', newline,
      tab, tab, ''}'', newline,
      tab, ''}'', newline,
      tab]"

text \<open>The first statements of \<open>main\<close>: the window and the query.\<close>

definition buildQuery :: "Time \<Rightarrow> string" where
  "buildQuery now =
     (let sevenDaysAgo = AddDate now 0 0 (- 7)
      in queryText (Unix sevenDaysAgo) (Unix now))"

definition noEpisodesMessage :: string where
  "noEpisodesMessage = sparkles @ '' No new episodes aired in the past week '' @ sparkles"

definition main :: "styles \<Rightarrow> 'r world \<Rightarrow> event list" where
  "main sty w =
    (let now = timeNow w;
         query = buildQuery now
     in case jsonMarshal w query of
          Inl err \<Rightarrow> printError sty ''Error creating request'' err
        | Inr requestBody \<Rightarrow>
            HttpPost ''https://graphql.anilist.co'' ''application/json'' requestBody #
            (case httpPost w ''https://graphql.anilist.co'' ''application/json'' requestBody of
               Inl err \<Rightarrow> printError sty ''Error making request'' err
             | Inr resp \<Rightarrow>
                 (case readAll w resp of
                    Inl err \<Rightarrow> printError sty ''Error reading response'' err
                  | Inr body \<Rightarrow>
                      (case jsonUnmarshal w body of
                         Inl err \<Rightarrow> printError sty ''Error parsing response'' err
                       | Inr schedules \<Rightarrow>
                           (let showsByDay = organizeShowsByDay schedules
                            in if length showsByDay = 0
                               then [Println (appStyle sty noEpisodesMessage)]
                               else renderOutput sty (mapRange w (map fst showsByDay))
                                      showsByDay)))
                 @ [CloseBody]))"

section \<open>The vocabulary of the specification\<close>

text \<open>
  The definitions of this section follow the words of the specification; the theorems
  below compare them with the program.

  An instant truncated to midnight UTC: year, month and day kept, the time of day zeroed.
\<close>

definition truncateToDay :: "Time \<Rightarrow> Time" where
  "truncateToDay t = Date (Year t) (Month t) (Day t) 0 0 0 0"

text \<open>The UTC calendar date of an instant.\<close>

definition calendarDate :: "Time \<Rightarrow> int \<times> int \<times> int" where
  "calendarDate t = (Year t, Month t, Day t)"

text \<open>Title resolution: the primary (English) title if it is not empty, else the
  fallback (Romaji) title.\<close>

definition resolvedTitle :: "AiringSchedule \<Rightarrow> string" where
  "resolvedTitle r =
     (if English (MediaTitle (Media r)) \<noteq> '''' then English (MediaTitle (Media r))
      else Romaji (MediaTitle (Media r)))"

text \<open>The normalized projection of one record: resolved title, episode number, average
  score, and the instant of the epoch timestamp.\<close>

definition showInfoOf :: "AiringSchedule \<Rightarrow> ShowInfo" where
  "showInfoOf r =
     \<lparr>Title = resolvedTitle r,
      EpisodeNumber = Episode r,
      AverageScore = MediaAverageScore (Media r),
      AiringTime = timeUnix (AiringAt r) 0\<rparr>"

text \<open>The day a record maps to.\<close>

definition dayOf :: "AiringSchedule \<Rightarrow> Time" where
  "dayOf r = truncateToDay (AiringTime (showInfoOf r))"





section \<open>Sample inputs\<close>

text \<open>
  Concrete inputs on which the theorems below are evaluated. \<open>plainStyles\<close> renders
  every text unchanged.
\<close>

definition plainStyles :: styles where
  "plainStyles =
     \<lparr>titleStyle = (\<lambda>s. s), episodeStyle = (\<lambda>s. s), timeStyle = (\<lambda>s. s),
      scoreStyle = (\<lambda>s. s), noScoreStyle = (\<lambda>s. s), dayHeaderStyle = (\<lambda>s. s),
      dividerStyle = (\<lambda>s. s), showEntryStyle = (\<lambda>s. s), appStyle = (\<lambda>s. s),
      bulletStyle = (\<lambda>s. s), errorStyle = (\<lambda>s. s)\<rparr>"

definition airing :: "int \<Rightarrow> int \<Rightarrow> string \<Rightarrow> string \<Rightarrow> int \<Rightarrow> AiringSchedule" where
  "airing episode airingAt romaji english score =
     \<lparr>Episode = episode, AiringAt = airingAt,
      Media = \<lparr>MediaTitle = \<lparr>Romaji = romaji, English = english\<rparr>,
               MediaAverageScore = score\<rparr>\<rparr>"

definition instant :: "int \<Rightarrow> Time" where
  "instant sec = timeUnix sec 0"

text \<open>Three records: two on 3 May 2024 (01:33:20 and 00:00:00 UTC), one on 1 May 2024.\<close>

definition weekSample :: "AiringSchedule list" where
  "weekSample =
     [airing 12 1714700000 ''Foo'' '''' 80,
      airing 3 1714694400 ''Baz'' ''Bar'' 75,
      airing 7 1714600000 ''Qux'' ''Quux'' 0]"



text \<open>A world in which every step has a fixed outcome and the iteration over a map
  yields the keys as they are stored.\<close>

definition scriptedWorld ::
  "Time \<Rightarrow> (error + string) \<Rightarrow> (error + unit) \<Rightarrow> (error + string)
   \<Rightarrow> (error + AiringSchedule list) \<Rightarrow> unit world" where
  "scriptedWorld now marshalled posted bodyRead decoded =
     \<lparr>timeNow = now,
      jsonMarshal = (\<lambda>query. marshalled),
      httpPost = (\<lambda>url contentType body. posted),
      readAll = (\<lambda>resp. bodyRead),
      jsonUnmarshal = (\<lambda>body. decoded),
      mapRange = (\<lambda>ks. ks)\<rparr>"

text \<open>Two records at the ends of the 64-bit range: the greatest second, then the least.\<close>

definition wrapSample :: "AiringSchedule list" where
  "wrapSample =
     [airing 1 9223372036854775807 ''Last'' '''' 0,
      airing 2 (- 9223372036854775808) ''First'' '''' 0]"

section \<open>64-bit arithmetic\<close>

lemma mod_add_cong_left:
  fixes a b c m :: int
  shows "a mod m = b mod m \<Longrightarrow> (a + c) mod m = (b + c) mod m"
  by (metis mod_add_left_eq)

lemma mod_mult_cong_left:
  fixes a b c m :: int
  shows "a mod m = b mod m \<Longrightarrow> (a * c) mod m = (b * c) mod m"
  by (metis mod_mult_left_eq)

lemma mod_shift_back:
  fixes x h m :: int
  shows "((x + h) mod m - h) mod m = x mod m"
proof -
  have "((x + h) mod m - h) mod m = (x + h - h) mod m" by (rule mod_diff_left_eq)
  then show ?thesis by simp
qed

lemma mod_range_id:
  fixes x m :: int
  shows "0 \<le> x \<Longrightarrow> x < m \<Longrightarrow> x mod m = x"
  by (rule mod_pos_pos_trivial)

lemma uint64_range: "0 \<le> uint64 x" "uint64 x < 18446744073709551616"
  unfolding uint64_def by (rule pos_mod_sign, simp) (rule pos_mod_bound, simp)


lemma wrap64_range: "- 9223372036854775808 \<le> wrap64 x" "wrap64 x < 9223372036854775808"
proof -
  have a: "0 \<le> (x + 9223372036854775808) mod 18446744073709551616"
    by (rule pos_mod_sign) simp
  have b: "(x + 9223372036854775808) mod 18446744073709551616 < 18446744073709551616"
    by (rule pos_mod_bound) simp
  show "- 9223372036854775808 \<le> wrap64 x" unfolding wrap64_def using a by linarith
  show "wrap64 x < 9223372036854775808" unfolding wrap64_def using b by linarith
qed

lemma uint64_id: "0 \<le> x \<Longrightarrow> x < 18446744073709551616 \<Longrightarrow> uint64 x = x"
  unfolding uint64_def by (rule mod_range_id)

lemma wrap64_id:
  assumes "- 9223372036854775808 \<le> x" "x < 9223372036854775808"
  shows "wrap64 x = x"
proof -
  have "(x + 9223372036854775808) mod 18446744073709551616 = x + 9223372036854775808"
    using assms by (intro mod_range_id) linarith+
  then show ?thesis unfolding wrap64_def by linarith
qed

lemma uint64_wrap64: "uint64 (wrap64 x) = uint64 x"
  unfolding uint64_def wrap64_def by (rule mod_shift_back)

lemma uint64_add_cong: "uint64 a = uint64 b \<Longrightarrow> uint64 (a + c) = uint64 (b + c)"
  unfolding uint64_def by (rule mod_add_cong_left)

lemma uint64_mult_cong: "uint64 a = uint64 b \<Longrightarrow> uint64 (a * c) = uint64 (b * c)"
  unfolding uint64_def by (rule mod_mult_cong_left)

lemma wrap64_cong: "uint64 x = uint64 y \<Longrightarrow> wrap64 x = wrap64 y"
proof -
  assume "uint64 x = uint64 y"
  then have "uint64 (x + 9223372036854775808) = uint64 (y + 9223372036854775808)"
    by (rule uint64_add_cong)
  then show ?thesis unfolding wrap64_def uint64_def by (rule arg_cong)
qed

lemma uint64_uint64: "uint64 (uint64 x) = uint64 x"
  unfolding uint64_def by (rule mod_mod_trivial)


lemma wrap64_uint64: "wrap64 (uint64 x) = wrap64 x"
  by (rule wrap64_cong) (rule uint64_uint64)

lemma uint64_add_uint64: "uint64 (uint64 a + c) = uint64 (a + c)"
  by (rule uint64_add_cong) (rule uint64_uint64)

lemma uint64_add_wrap64: "uint64 (wrap64 a + c) = uint64 (a + c)"
  by (rule uint64_add_cong) (rule uint64_wrap64)

lemma wrap64_add_wrap64: "wrap64 (wrap64 a + c) = wrap64 (a + c)"
  by (rule wrap64_cong) (rule uint64_add_wrap64)

lemma wrap64_add_uint64: "wrap64 (uint64 a + c) = wrap64 (a + c)"
  by (rule wrap64_cong) (rule uint64_add_uint64)

lemma uint64_mult_add_uint64: "uint64 (uint64 a * c + b) = uint64 (a * c + b)"
  by (rule uint64_add_cong) (rule uint64_mult_cong, rule uint64_uint64)

text \<open>The offsets as numbers; both are whole days.\<close>

lemma offsets:
  "unixToInternal = 62135596800" "internalToUnix = - 62135596800"
  "absoluteToInternal = - 9223371966579724800" "internalToAbsolute = 9223371966579724800"
  unfolding unixToInternal_def internalToUnix_def absoluteToInternal_def internalToAbsolute_def
    absoluteZeroYear_def secondsPerDay_def by simp_all

lemma absSeconds_ext: "absSeconds t = uint64 (extSeconds t + internalToAbsolute)"
proof -
  have "absSeconds t = uint64 (extSeconds t + internalToUnix + (unixToInternal + internalToAbsolute))"
    unfolding absSeconds_def Unix_def by (rule uint64_add_wrap64)
  also have "extSeconds t + internalToUnix + (unixToInternal + internalToAbsolute)
             = extSeconds t + internalToAbsolute"
    unfolding internalToUnix_def by simp
  finally show ?thesis .
qed

lemma absSeconds_range: "0 \<le> absSeconds t" "absSeconds t < 18446744073709551616"
  unfolding absSeconds_def by (rule uint64_range)+

lemma timeUnix_zero: "timeUnix sec 0 = \<lparr>extSeconds = wrap64 (sec + unixToInternal), Nanosecond = 0\<rparr>"
  unfolding timeUnix_def by (simp add: wrap64_add_wrap64)

lemma Unix_timeUnix: "Unix (timeUnix sec 0) = wrap64 sec"
proof -
  have "Unix (timeUnix sec 0) = wrap64 (wrap64 (sec + unixToInternal) + internalToUnix)"
    unfolding timeUnix_zero Unix_def by simp
  also have "\<dots> = wrap64 (sec + unixToInternal + internalToUnix)"
    by (rule wrap64_add_wrap64)
  finally show ?thesis unfolding internalToUnix_def by simp
qed

section \<open>The calendar: a date determines its day\<close>

lemma div_mod_unique:
  fixes b q r :: int
  assumes "0 \<le> r" "r < b"
  shows "(b * q + r) div b = q" and "(b * q + r) mod b = r"
  using assms by (simp_all add: div_pos_pos_trivial mod_pos_pos_trivial)

lemma small_div4: "0 \<le> (c::int) \<Longrightarrow> c \<le> 4 \<Longrightarrow> c - c div 4 = (if c = 4 then 3 else c)"
  by (auto simp: div_pos_pos_trivial)

text \<open>
  Every number of days splits into whole cycles of 400, 100, 4 and 1 years and a day of
  the year; the last day of a cycle of four years, and of four centuries, is the 366th
  day of its year.
\<close>

lemma absYearDay_decomp:
  obtains n400 n100 n4 n1 d4 :: int where
    "z = 146097 * n400 + 36524 * n100 + 1461 * n4 + 365 * n1 + d4"
    "absYearDay z = (400 * n400 + 100 * n100 + 4 * n4 + n1, d4)"
    "0 \<le> n100" "n100 \<le> 3" "0 \<le> n4" "n4 \<le> 24" "0 \<le> n1" "n1 \<le> 3"
    "0 \<le> d4" "d4 \<le> 365" "d4 = 365 \<Longrightarrow> n1 = 3" "d4 = 365 \<Longrightarrow> n4 = 24 \<Longrightarrow> n100 = 3"
    "0 \<le> z \<Longrightarrow> 0 \<le> n400"
proof -
  define n400 where "n400 = z div 146097"
  define d1 where "d1 = z - 146097 * n400"
  have d1m: "d1 = z mod 146097"
    unfolding d1_def n400_def by (simp add: minus_mult_div_eq_mod)
  have d1: "0 \<le> d1" "d1 < 146097" unfolding d1m by simp_all
  define c where "c = d1 div 36524"
  have cm: "d1 = 36524 * c + d1 mod 36524" unfolding c_def by simp
  have r1: "0 \<le> d1 mod 36524" "d1 mod 36524 < 36524" by simp_all
  have c: "0 \<le> c" "c \<le> 4" using cm r1 d1 by linarith+
  define n100 where "n100 = c - c div 4"
  have n100: "n100 = (if c = 4 then 3 else c)" unfolding n100_def using c by (rule small_div4)
  define d2 where "d2 = d1 - 36524 * n100"
  have d2: "0 \<le> d2" "d2 \<le> 36524" using cm r1 d1 c n100 unfolding d2_def
    by (auto split: if_splits)
  have d2top: "d2 = 36524 \<Longrightarrow> n100 = 3" using cm r1 d1 c n100 unfolding d2_def
    by (auto split: if_splits)
  define n4 where "n4 = d2 div 1461"
  define d3 where "d3 = d2 - 1461 * n4"
  have d3m: "d3 = d2 mod 1461" unfolding d3_def n4_def by (simp add: minus_mult_div_eq_mod)
  have d3: "0 \<le> d3" "d3 < 1461" unfolding d3m by simp_all
  have n4: "0 \<le> n4" "n4 \<le> 24" using d3 d2 unfolding d3_def by linarith+
  define q where "q = d3 div 365"
  have qm: "d3 = 365 * q + d3 mod 365" unfolding q_def by simp
  have r3: "0 \<le> d3 mod 365" "d3 mod 365 < 365" by simp_all
  have q: "0 \<le> q" "q \<le> 4" using qm r3 d3 by linarith+
  define n1 where "n1 = q - q div 4"
  have n1: "n1 = (if q = 4 then 3 else q)" unfolding n1_def using q by (rule small_div4)
  define d4 where "d4 = d3 - 365 * n1"
  have d4: "0 \<le> d4" "d4 \<le> 365" using qm r3 d3 q n1 unfolding d4_def
    by (auto split: if_splits)
  have d4top: "d4 = 365 \<Longrightarrow> n1 = 3 \<and> d3 = 1460" using qm r3 d3 q n1 unfolding d4_def
    by (auto split: if_splits)
  have n1b: "0 \<le> n1" "n1 \<le> 3" using n1 q by (auto split: if_splits)
  have n100b: "0 \<le> n100" "n100 \<le> 3" using n100 c by (auto split: if_splits)
  have zeq: "z = 146097 * n400 + 36524 * n100 + 1461 * n4 + 365 * n1 + d4"
    unfolding d4_def d3_def d2_def d1_def by simp
  have ayd: "absYearDay z = (400 * n400 + 100 * n100 + 4 * n4 + n1, d4)"
    unfolding absYearDay_def Let_def daysPer400Years_def daysPer100Years_def daysPer4Years_def
    by (simp add: n400_def[symmetric] d1_def[symmetric] c_def[symmetric] n100_def[symmetric]
        d2_def[symmetric] n4_def[symmetric] d3_def[symmetric] q_def[symmetric] n1_def[symmetric]
        d4_def[symmetric])
  have top: "d4 = 365 \<Longrightarrow> n4 = 24 \<Longrightarrow> n100 = 3"
  proof -
    assume a: "d4 = 365" "n4 = 24"
    have "d3 = 1460" using d4top a by simp
    then have "d2 = 36524" using a unfolding d3_def by simp
    then show ?thesis by (rule d2top)
  qed
  have pos: "0 \<le> z \<Longrightarrow> 0 \<le> n400" unfolding n400_def by (simp add: pos_imp_zdiv_nonneg_iff)
  show thesis
    using that[OF zeq ayd n100b n4 n1b d4] d4top top pos by blast
qed

lemma daysSinceEpoch_decomp:
  fixes n400 n100 n4 n1 :: int
  assumes "0 \<le> n100" "n100 \<le> 3" "0 \<le> n4" "n4 \<le> 24" "0 \<le> n1" "n1 \<le> 3"
    and "0 \<le> n400"
    and "146097 * n400 + 36524 * n100 + 1461 * n4 + 365 * n1 < 18446744073709551616"
  shows "daysSinceEpoch (400 * n400 + 100 * n100 + 4 * n4 + n1 + absoluteZeroYear)
         = 146097 * n400 + 36524 * n100 + 1461 * n4 + 365 * n1"
proof -
  have a: "(400 * n400 + (100 * n100 + (4 * n4 + n1))) div 400 = n400"
    using assms by (intro div_mod_unique) linarith+
  have b: "(100 * n100 + (4 * n4 + n1)) div 100 = n100"
    using assms by (intro div_mod_unique) linarith+
  have c: "(4 * n4 + n1) div 4 = n4"
    using assms by (intro div_mod_unique) linarith+
  have y0: "400 * n400 + 100 * n100 + 4 * n4 + n1 + absoluteZeroYear - absoluteZeroYear
            = 400 * n400 + (100 * n100 + (4 * n4 + n1))" by simp
  have yr: "0 \<le> 400 * n400 + (100 * n100 + (4 * n4 + n1))"
    "400 * n400 + (100 * n100 + (4 * n4 + n1)) < 18446744073709551616"
    using assms by linarith+
  have y: "uint64 (400 * n400 + 100 * n100 + 4 * n4 + n1 + absoluteZeroYear - absoluteZeroYear)
            = 400 * n400 + (100 * n100 + (4 * n4 + n1))"
    unfolding y0 using yr by (rule uint64_id)
  have r: "uint64 (146097 * n400 + 36524 * n100 + 1461 * n4 + 365 * n1)
           = 146097 * n400 + 36524 * n100 + 1461 * n4 + 365 * n1"
    using assms by (intro uint64_id) linarith+
  have "daysSinceEpoch (400 * n400 + 100 * n100 + 4 * n4 + n1 + absoluteZeroYear)
        = uint64 (146097 * n400 + 36524 * n100 + 1461 * n4 + 365 * n1)"
    unfolding daysSinceEpoch_def Let_def y a add_diff_cancel_left' b c
      daysPer400Years_def daysPer100Years_def daysPer4Years_def
    by simp
  then show ?thesis unfolding r .
qed

lemma isLeap_decomp:
  fixes n400 n100 n4 n1 :: int
  assumes "0 \<le> n100" "n100 \<le> 3" "0 \<le> n4" "n4 \<le> 24" "0 \<le> n1" "n1 \<le> 3"
  shows "isLeap (1 + 400 * n400 + 100 * n100 + 4 * n4 + n1)
         \<longleftrightarrow> n1 = 3 \<and> (n4 = 24 \<longrightarrow> n100 = 3)"
proof -
  let ?y = "1 + 400 * n400 + 100 * n100 + 4 * n4 + n1"
  have m4: "?y mod 4 = (if n1 = 3 then 0 else n1 + 1)"
  proof (cases "n1 = 3")
    case True
    have "?y = 4 * (100 * n400 + 25 * n100 + n4 + 1) + 0" using True by simp
    then have "?y mod 4 = 0" by (metis div_mod_unique(2) order_refl zero_less_numeral)
    then show ?thesis using True by simp
  next
    case False
    have "?y = 4 * (100 * n400 + 25 * n100 + n4) + (n1 + 1)" by simp
    moreover have "0 \<le> n1 + 1" "n1 + 1 < 4" using assms False by linarith+
    ultimately have "?y mod 4 = n1 + 1" by (metis div_mod_unique(2))
    then show ?thesis using False by simp
  qed
  have m100: "?y mod 100 = (if n1 = 3 \<and> n4 = 24 then 0 else 4 * n4 + n1 + 1)"
  proof (cases "n1 = 3 \<and> n4 = 24")
    case True
    have "?y = 100 * (4 * n400 + n100 + 1) + 0" using True by simp
    then have "?y mod 100 = 0" by (metis div_mod_unique(2) order_refl zero_less_numeral)
    then show ?thesis using True by simp
  next
    case False
    have "?y = 100 * (4 * n400 + n100) + (4 * n4 + n1 + 1)" by simp
    moreover have "0 \<le> 4 * n4 + n1 + 1" "4 * n4 + n1 + 1 < 100" using assms False by linarith+
    ultimately have "?y mod 100 = 4 * n4 + n1 + 1" by (metis div_mod_unique(2))
    then show ?thesis using False by simp
  qed
  have m400: "?y mod 400
              = (if n1 = 3 \<and> n4 = 24 \<and> n100 = 3 then 0 else 100 * n100 + 4 * n4 + n1 + 1)"
  proof (cases "n1 = 3 \<and> n4 = 24 \<and> n100 = 3")
    case True
    have "?y = 400 * (n400 + 1) + 0" using True by simp
    then have "?y mod 400 = 0" by (metis div_mod_unique(2) order_refl zero_less_numeral)
    then show ?thesis using True by simp
  next
    case False
    have "?y = 400 * n400 + (100 * n100 + 4 * n4 + n1 + 1)" by simp
    moreover have "0 \<le> 100 * n100 + 4 * n4 + n1 + 1" "100 * n100 + 4 * n4 + n1 + 1 < 400"
      using assms False by linarith+
    ultimately have "?y mod 400 = 100 * n100 + 4 * n4 + n1 + 1" by (metis div_mod_unique(2))
    then show ?thesis using False by simp
  qed
  show ?thesis unfolding isLeap_def m4 m100 m400 using assms by auto
qed

text \<open>The absolute zero year is the first of a cycle of 400 years.\<close>

lemma isLeap_absolute:
  fixes n400 n100 n4 n1 :: int
  assumes "0 \<le> n100" "n100 \<le> 3" "0 \<le> n4" "n4 \<le> 24" "0 \<le> n1" "n1 \<le> 3"
  shows "isLeap (400 * n400 + 100 * n100 + 4 * n4 + n1 + absoluteZeroYear)
         \<longleftrightarrow> n1 = 3 \<and> (n4 = 24 \<longrightarrow> n100 = 3)"
proof -
  have e: "400 * n400 + 100 * n100 + 4 * n4 + n1 + absoluteZeroYear
        = 1 + 400 * (n400 - 730692556) + 100 * n100 + 4 * n4 + n1"
    unfolding absoluteZeroYear_def by simp
  show ?thesis unfolding e by (rule isLeap_decomp[OF assms])
qed

lemma absYearDay_inv:
  assumes "absYearDay z = (y, yday)" "0 \<le> z" "z < 18446744073709551616"
  shows "daysSinceEpoch (y + absoluteZeroYear) = z - yday" and "0 \<le> yday"
    and "yday < (if isLeap (y + absoluteZeroYear) then 366 else 365)"
proof -
  obtain n400 n100 n4 n1 d4 :: int where
    z: "z = 146097 * n400 + 36524 * n100 + 1461 * n4 + 365 * n1 + d4" and
    a: "absYearDay z = (400 * n400 + 100 * n100 + 4 * n4 + n1, d4)" and
    b: "0 \<le> n100" "n100 \<le> 3" "0 \<le> n4" "n4 \<le> 24" "0 \<le> n1" "n1 \<le> 3" and
    d: "0 \<le> d4" "d4 \<le> 365" and t1: "d4 = 365 \<Longrightarrow> n1 = 3"
    and t2: "d4 = 365 \<Longrightarrow> n4 = 24 \<Longrightarrow> n100 = 3"
    and p: "0 \<le> z \<Longrightarrow> 0 \<le> n400"
    by (rule absYearDay_decomp[of z]) (rule that; assumption)
  have yy: "y = 400 * n400 + 100 * n100 + 4 * n4 + n1" and yd: "yday = d4"
    using a assms(1) by simp_all
  have n: "0 \<le> n400" using p assms(2) by simp
  have u: "146097 * n400 + 36524 * n100 + 1461 * n4 + 365 * n1 < 18446744073709551616"
    using z d assms(3) by linarith
  show "daysSinceEpoch (y + absoluteZeroYear) = z - yday"
    unfolding yy yd using daysSinceEpoch_decomp[OF b n u] z by simp
  show "0 \<le> yday" using d yd by simp
  show "yday < (if isLeap (y + absoluteZeroYear) then 366 else 365)"
    unfolding yy yd isLeap_absolute[OF b] using d t1 t2 by (cases "d4 = 365") auto
qed

text \<open>The month found from the estimate \<open>day div 31\<close> is the month the day lies in.\<close>

lemma month_estimate:
  fixes day :: int
  assumes "0 \<le> day" "day < 365"
  shows "(let m = day div 31;
              e = daysBefore ! nat (m + 1);
              (month, begin) = (if day \<ge> e then (m + 1, e) else (m, daysBefore ! nat m))
          in 0 \<le> month \<and> month \<le> 11 \<and> daysBefore ! nat month = begin \<and> begin \<le> day
             \<and> (2 \<le> month \<longleftrightarrow> 59 \<le> day))"
proof -
  define m where "m = day div 31"
  have dm: "day = 31 * m + day mod 31" unfolding m_def by simp
  have r: "0 \<le> day mod 31" "day mod 31 < 31" by simp_all
  have "0 \<le> m" "m \<le> 11" using dm r assms by linarith+
  then have "m = 0 \<or> m = 1 \<or> m = 2 \<or> m = 3 \<or> m = 4 \<or> m = 5 \<or> m = 6 \<or> m = 7
    \<or> m = 8 \<or> m = 9 \<or> m = 10 \<or> m = 11" by arith
  then consider "m = 0" | "m = 1" | "m = 2" | "m = 3" | "m = 4" | "m = 5" | "m = 6" | "m = 7"
    | "m = 8" | "m = 9" | "m = 10" | "m = 11" by blast
  then show ?thesis
    using dm r assms unfolding m_def[symmetric] Let_def daysBefore_def
    by cases (simp_all, linarith+)
qed

lemma days_range:
  assumes "0 \<le> a" "a < 18446744073709551616"
  shows "0 \<le> a div secondsPerDay" "a div secondsPerDay < 18446744073709551616"
proof -
  show "0 \<le> a div secondsPerDay"
    unfolding secondsPerDay_def using assms(1) by (simp add: pos_imp_zdiv_nonneg_iff)
  have e: "a = 86400 * (a div 86400) + a mod 86400" by simp
  have m: "0 \<le> a mod 86400" by simp
  have p: "0 \<le> a div 86400" using assms(1) by (simp add: pos_imp_zdiv_nonneg_iff)
  have "a div 86400 \<le> a" using e m p by linarith
  then show "a div secondsPerDay < 18446744073709551616"
    unfolding secondsPerDay_def using assms(2) by linarith
qed

lemma absDate_inv:
  assumes "absDate a = (year, month, day)" "0 \<le> a" "a < 18446744073709551616"
  shows "1 \<le> month \<and> month \<le> 12 \<and>
         daysSinceEpoch year + daysBefore ! nat (month - 1)
           + (if isLeap year \<and> month \<ge> 3 then 1 else 0) + (day - 1) = a div secondsPerDay"
proof -
  define z where "z = a div secondsPerDay"
  obtain y0 yd where ayd: "absYearDay z = (y0, yd)" by (cases "absYearDay z")
  define y where "y = y0 + absoluteZeroYear"
  have zr: "0 \<le> z" "z < 18446744073709551616"
    unfolding z_def using days_range[OF assms(2,3)] by simp_all
  note inv = absYearDay_inv[OF ayd zr, folded y_def]
  show ?thesis
  proof (cases "isLeap y \<and> yd = 59")
    case True
    then have "absDate a = (y, 2, 29)"
      unfolding absDate_def z_def[symmetric] ayd y_def by simp
    then show ?thesis using assms(1) inv(1) True unfolding z_def[symmetric]
      by (simp add: daysBefore_def)
  next
    case False
    define dd where "dd = (if isLeap y \<and> yd > 59 then yd - 1 else yd)"
    have dd: "0 \<le> dd" "dd < 365" using inv(2,3) False unfolding dd_def
      by (auto split: if_splits)
    define m where "m = dd div 31"
    define e where "e = daysBefore ! nat (m + 1)"
    define mb where "mb = (if dd \<ge> e then (m + 1, e) else (m, daysBefore ! nat m))"
    have est: "0 \<le> fst mb \<and> fst mb \<le> 11 \<and> daysBefore ! nat (fst mb) = snd mb \<and> snd mb \<le> dd
               \<and> (2 \<le> fst mb \<longleftrightarrow> 59 \<le> dd)"
      using month_estimate[OF dd] unfolding Let_def m_def[symmetric] e_def[symmetric]
        mb_def[symmetric] by (simp add: case_prod_beta)
    have ad: "absDate a = (y, fst mb + 1, dd - snd mb + 1)"
      unfolding absDate_def z_def[symmetric] ayd using False
      by (auto simp: Let_def dd_def m_def e_def mb_def y_def)
    have eqs: "year = y" "month = fst mb + 1" "day = dd - snd mb + 1"
      using ad assms(1) by simp_all
    have adj: "(if isLeap y \<and> month \<ge> 3 then 1 else 0) = yd - dd"
      using est False unfolding eqs dd_def by (auto split: if_splits)
    show ?thesis
      unfolding eqs(1) adj z_def[symmetric] using est inv(1) unfolding eqs by simp
  qed
qed

lemma norm_id: "0 \<le> lo \<Longrightarrow> lo < base \<Longrightarrow> norm hi lo base = (hi, lo)"
  unfolding norm_def by simp

text \<open>
  Building an instant from the date of absolute seconds, shifted by \<open>k\<close> days, with a
  time of day in range.
\<close>

lemma Date_civil:
  assumes "absDate a = (year, month, day)" "0 \<le> a" "a < 18446744073709551616"
    and "0 \<le> h" "h < 24" "0 \<le> mi" "mi < 60" "0 \<le> s" "s < 60" "0 \<le> ns" "ns < 1000000000"
  shows "Date year month (day + k) h mi s ns
         = \<lparr>extSeconds = wrap64 ((a div secondsPerDay + k) * secondsPerDay
                                 + (h * 3600 + mi * 60 + s) + absoluteToInternal),
            Nanosecond = ns\<rparr>"
proof -
  have inv: "1 \<le> month" "month \<le> 12"
    "daysSinceEpoch year + daysBefore ! nat (month - 1)
           + (if isLeap year \<and> month \<ge> 3 then 1 else 0) + (day - 1) = a div secondsPerDay"
    using absDate_inv[OF assms(1,2,3)] by simp_all
  have n1: "norm year (month - 1) 12 = (year, month - 1)"
    using inv(1,2) by (intro norm_id) linarith+
  have d: "daysSinceEpoch year + daysBefore ! nat (month - 1)
           + (if isLeap year \<and> month \<ge> 3 then 1 else 0) + (day + k - 1)
           = a div secondsPerDay + k"
    using inv(3) by linarith
  have mm: "month - 1 + 1 = month" by simp
  define c where "c = h * 3600 + mi * 60 + s"
  define z where "z = a div secondsPerDay + k"
  have w: "wrap64 (wrap64 (wrap64 (uint64 (uint64 z * secondsPerDay + c))
                           + (absoluteToInternal + internalToUnix)) + unixToInternal)
           = wrap64 (z * secondsPerDay + c + absoluteToInternal)"
  proof -
    have "wrap64 (wrap64 (wrap64 (uint64 (uint64 z * secondsPerDay + c))
                           + (absoluteToInternal + internalToUnix)) + unixToInternal)
          = wrap64 (wrap64 (uint64 (uint64 z * secondsPerDay + c))
                           + (absoluteToInternal + internalToUnix) + unixToInternal)"
      by (rule wrap64_add_wrap64)
    also have "\<dots> = wrap64 (wrap64 (uint64 (uint64 z * secondsPerDay + c)) + absoluteToInternal)"
      unfolding internalToUnix_def by simp
    also have "\<dots> = wrap64 (uint64 (uint64 z * secondsPerDay + c) + absoluteToInternal)"
      by (rule wrap64_add_wrap64)
    also have "\<dots> = wrap64 (uint64 z * secondsPerDay + c + absoluteToInternal)"
      by (rule wrap64_add_uint64)
    also have "\<dots> = wrap64 (z * secondsPerDay + c + absoluteToInternal)"
      by (rule wrap64_cong) (simp add: add.assoc uint64_mult_add_uint64)
    finally show ?thesis .
  qed
  show ?thesis
    unfolding Date_def n1 norm_id[OF assms(10,11)] norm_id[OF assms(8,9)] norm_id[OF assms(6,7)]
      norm_id[OF assms(4,5)] Let_def prod.case mm d
    unfolding c_def[symmetric] z_def[symmetric] w ..
qed

lemma clock_split:
  "(absSeconds t div secondsPerDay) * secondsPerDay
   + (Hour t * 3600 + Minute t * 60 + Second t) = absSeconds t"
proof -
  define u where "u = absSeconds t"
  have a: "u mod 86400 = 3600 * ((u mod 86400) div 3600) + (u mod 86400) mod 3600" by simp
  have b: "(u mod 86400) mod 3600 = u mod 3600"
    by (rule mod_mod_cancel) simp
  have c: "u mod 3600 = 60 * ((u mod 3600) div 60) + (u mod 3600) mod 60" by simp
  have d: "(u mod 3600) mod 60 = u mod 60"
    by (rule mod_mod_cancel) simp
  have e: "u = 86400 * (u div 86400) + u mod 86400" by simp
  show ?thesis
    unfolding Hour_def Minute_def Second_def secondsPerDay_def u_def[symmetric]
    using a b c d e by linarith
qed

lemma clock_bounds:
  "0 \<le> Hour t" "Hour t < 24" "0 \<le> Minute t" "Minute t < 60" "0 \<le> Second t" "Second t < 60"
proof -
  have a: "0 \<le> absSeconds t mod 86400" "absSeconds t mod 86400 < 86400" by simp_all
  have b: "0 \<le> absSeconds t mod 3600" "absSeconds t mod 3600 < 3600" by simp_all
  show "0 \<le> Hour t" unfolding Hour_def secondsPerDay_def using a by simp
  show "Hour t < 24" unfolding Hour_def secondsPerDay_def using a by simp
  show "0 \<le> Minute t" unfolding Minute_def using b by simp
  show "Minute t < 60" unfolding Minute_def using b by simp
  show "0 \<le> Second t" "Second t < 60" unfolding Second_def by simp_all
qed

lemma absDate_Time: "absDate (absSeconds t) = (Year t, Month t, Day t)"
  unfolding Year_def Month_def Day_def by (cases "absDate (absSeconds t)") simp

text \<open>Adding days to the date moves the internal second by that many times 86400
  seconds, in 64 bits.\<close>

lemma AddDate_days:
  assumes "0 \<le> Nanosecond t" "Nanosecond t < 1000000000"
  shows "AddDate t 0 0 k
         = \<lparr>extSeconds = wrap64 (extSeconds t + k * secondsPerDay), Nanosecond = Nanosecond t\<rparr>"
proof -
  have "AddDate t 0 0 k
        = \<lparr>extSeconds = wrap64 ((absSeconds t div secondsPerDay + k) * secondsPerDay
            + (Hour t * 3600 + Minute t * 60 + Second t) + absoluteToInternal),
           Nanosecond = Nanosecond t\<rparr>"
    unfolding AddDate_def add_0_right
    by (rule Date_civil[OF absDate_Time absSeconds_range clock_bounds assms])
  also have "(absSeconds t div secondsPerDay + k) * secondsPerDay
            + (Hour t * 3600 + Minute t * 60 + Second t) + absoluteToInternal
            = absSeconds t + (k * secondsPerDay + absoluteToInternal)"
    using clock_split[of t] by (simp add: algebra_simps)
  also have "wrap64 (absSeconds t + (k * secondsPerDay + absoluteToInternal))
             = wrap64 (extSeconds t + internalToAbsolute + (k * secondsPerDay + absoluteToInternal))"
    unfolding absSeconds_ext by (rule wrap64_add_uint64)
  also have "extSeconds t + internalToAbsolute + (k * secondsPerDay + absoluteToInternal)
             = extSeconds t + k * secondsPerDay"
    unfolding internalToAbsolute_def by simp
  finally show ?thesis .
qed

lemma Unix_AddDate_days:
  assumes "0 \<le> Nanosecond t" "Nanosecond t < 1000000000"
  shows "Unix (AddDate t 0 0 k) = wrap64 (Unix t + k * secondsPerDay)"
proof -
  have "Unix (AddDate t 0 0 k) = wrap64 (wrap64 (extSeconds t + k * secondsPerDay) + internalToUnix)"
    unfolding AddDate_days[OF assms] Unix_def by simp
  also have "\<dots> = wrap64 (extSeconds t + k * secondsPerDay + internalToUnix)"
    by (rule wrap64_add_wrap64)
  also have "\<dots> = wrap64 (extSeconds t + internalToUnix + k * secondsPerDay)"
    by (simp add: add.commute add.left_commute)
  also have "\<dots> = wrap64 (wrap64 (extSeconds t + internalToUnix) + k * secondsPerDay)"
    by (rule wrap64_add_wrap64[symmetric])
  finally show ?thesis unfolding Unix_def .
qed

text \<open>Truncation to the date is truncation of the absolute second to a multiple of 86400.\<close>

lemma Date_midnight:
  "Date (Year t) (Month t) (Day t) 0 0 0 0
   = \<lparr>extSeconds = wrap64 ((absSeconds t div secondsPerDay) * secondsPerDay + absoluteToInternal),
      Nanosecond = 0\<rparr>"
  using Date_civil[OF absDate_Time absSeconds_range, where h = 0 and mi = 0 and s = 0
      and ns = 0 and k = 0 and t1 = t] by simp

section \<open>The organizer: what the loop builds\<close>

lemma truncateToDay_eq:
  "truncateToDay t
   = \<lparr>extSeconds = wrap64 ((absSeconds t div 86400) * 86400 + absoluteToInternal),
      Nanosecond = 0\<rparr>"
  unfolding truncateToDay_def Date_midnight secondsPerDay_def ..

lemma mapIndex_mapAssign:
  "mapIndex (mapAssign m k v) k' = (if k' = k then v else mapIndex m k')"
  by (induction m) auto

lemma keys_mapAssign: "fst ` set (mapAssign m k v) = insert k (fst ` set m)"
proof (induction m)
  case Nil
  show ?case by simp
next
  case (Cons p m)
  obtain k' v' where p: "p = (k', v')" by (cases p)
  show ?case unfolding p using Cons.IH by (cases "k' = k") auto
qed

lemma distinct_mapAssign:
  "distinct (map fst m) \<Longrightarrow> distinct (map fst (mapAssign m k v))"
  by (induction m) (auto simp: keys_mapAssign)

lemma mapIndex_member:
  "distinct (map fst m) \<Longrightarrow> (k, v) \<in> set m \<Longrightarrow> mapIndex m k = v"
  by (induction m) (auto simp: rev_image_eqI)

lemma mset_mapAssign_append:
  "mset (concat (map snd (mapAssign m k (mapIndex m k @ [s]))))
   = mset (concat (map snd m)) + {#s#}"
  by (induction m) auto

lemma organizeLoop_step:
  "organizeLoop (r # rest) m
   = organizeLoop rest (mapAssign m (dayOf r) (mapIndex m (dayOf r) @ [showInfoOf r]))"
proof -
  have k: "Date (Year (timeUnix (AiringAt r) 0)) (Month (timeUnix (AiringAt r) 0))
             (Day (timeUnix (AiringAt r) 0)) 0 0 0 0 = dayOf r"
    unfolding dayOf_def truncateToDay_def showInfoOf_def by simp
  have s: "\<lparr>Title = (if English (MediaTitle (Media r)) = ''''
                      then Romaji (MediaTitle (Media r))
                      else English (MediaTitle (Media r))),
            EpisodeNumber = Episode r,
            AverageScore = MediaAverageScore (Media r),
            AiringTime = timeUnix (AiringAt r) 0\<rparr> = showInfoOf r"
    unfolding showInfoOf_def resolvedTitle_def by simp
  show ?thesis
    unfolding organizeLoop.simps Let_def k s ..
qed

lemma organizeLoop_keys:
  "fst ` set (organizeLoop rs m) = fst ` set m \<union> dayOf ` set rs"
proof (induction rs arbitrary: m)
  case Nil
  show ?case by simp
next
  case (Cons r rs)
  show ?case unfolding organizeLoop_step Cons.IH keys_mapAssign by auto
qed

lemma organizeLoop_distinct:
  "distinct (map fst m) \<Longrightarrow> distinct (map fst (organizeLoop rs m))"
proof (induction rs arbitrary: m)
  case Nil
  then show ?case by simp
next
  case (Cons r rs)
  show ?case unfolding organizeLoop_step
    by (rule Cons.IH) (rule distinct_mapAssign[OF Cons.prems])
qed

lemma organizeLoop_index:
  "mapIndex (organizeLoop rs m) k
   = mapIndex m k @ map showInfoOf (filter (\<lambda>r. dayOf r = k) rs)"
proof (induction rs arbitrary: m)
  case Nil
  show ?case by simp
next
  case (Cons r rs)
  show ?case unfolding organizeLoop_step Cons.IH mapIndex_mapAssign by auto
qed

lemma organizeLoop_mset:
  "mset (concat (map snd (organizeLoop rs m)))
   = mset (concat (map snd m)) + mset (map showInfoOf rs)"
proof (induction rs arbitrary: m)
  case Nil
  show ?case by simp
next
  case (Cons r rs)
  show ?case unfolding organizeLoop_step Cons.IH mset_mapAssign_append by simp
qed

lemma organize_keys: "fst ` set (organizeShowsByDay rs) = dayOf ` set rs"
  unfolding organizeShowsByDay_def organizeLoop_keys by simp

lemma organize_distinct: "distinct (map fst (organizeShowsByDay rs))"
  unfolding organizeShowsByDay_def by (rule organizeLoop_distinct) simp

lemma organize_index:
  "mapIndex (organizeShowsByDay rs) k = map showInfoOf (filter (\<lambda>r. dayOf r = k) rs)"
  unfolding organizeShowsByDay_def organizeLoop_index by simp

lemma organize_bucket:
  assumes "(k, ss) \<in> set (organizeShowsByDay rs)"
  shows "ss = map showInfoOf (filter (\<lambda>r. dayOf r = k) rs)"
  using mapIndex_member[OF organize_distinct assms] organize_index by simp

lemma organize_mset:
  "mset (concat (map snd (organizeShowsByDay rs))) = mset (map showInfoOf rs)"
  unfolding organizeShowsByDay_def organizeLoop_mset by simp

lemma organize_has_bucket:
  assumes "r \<in> set rs"
  shows "(dayOf r, map showInfoOf (filter (\<lambda>r'. dayOf r' = dayOf r) rs))
         \<in> set (organizeShowsByDay rs)"
proof -
  have "dayOf r \<in> fst ` set (organizeShowsByDay rs)"
    unfolding organize_keys using assms by simp
  then obtain ss where m: "(dayOf r, ss) \<in> set (organizeShowsByDay rs)" by auto
  show ?thesis using m organize_bucket[OF m] by simp
qed

lemma organize_weekSample:
  "organizeShowsByDay weekSample =
     [(instant 1714694400,
       [\<lparr>Title = ''Foo'', EpisodeNumber = 12, AverageScore = 80, AiringTime = instant 1714700000\<rparr>,
        \<lparr>Title = ''Bar'', EpisodeNumber = 3, AverageScore = 75, AiringTime = instant 1714694400\<rparr>]),
      (instant 1714521600,
       [\<lparr>Title = ''Quux'', EpisodeNumber = 7, AverageScore = 0, AiringTime = instant 1714600000\<rparr>])]"
  by code_simp

lemma organize_empty_iff: "organizeShowsByDay rs = [] \<longleftrightarrow> rs = []"
proof
  assume e: "organizeShowsByDay rs = []"
  have "dayOf ` set rs = {}" using organize_keys[of rs] unfolding e by simp
  then show "rs = []" by simp
next
  assume "rs = []"
  then show "organizeShowsByDay rs = []" unfolding organizeShowsByDay_def by simp
qed

section \<open>The renderer: what the loops write\<close>





lemma After_irrefl: "\<not> After t t"
  unfolding After_def by simp

lemma After_trans: "After a b \<Longrightarrow> After b c \<Longrightarrow> After a c"
  unfolding After_def by auto

lemma After_total: "a \<noteq> b \<Longrightarrow> After a b \<or> After b a"
  unfolding After_def by (cases a, cases b) auto

lemma After_asym: "After a b \<Longrightarrow> \<not> After b a"
  unfolding After_def by auto

lemma set_insertBy: "set (insertBy lt x ys) = insert x (set ys)"
  by (induction ys) auto

lemma set_sortSlice: "set (sortSlice lt xs) = set xs"
  by (induction xs) (simp_all add: set_insertBy)

lemma length_insertBy: "length (insertBy lt x ys) = Suc (length ys)"
  by (induction ys) auto

lemma length_sortSlice: "length (sortSlice lt xs) = length xs"
  by (induction xs) (simp_all add: length_insertBy)

lemma distinct_insertBy: "x \<notin> set ys \<Longrightarrow> distinct ys \<Longrightarrow> distinct (insertBy lt x ys)"
  by (induction ys) (auto simp: set_insertBy)

lemma distinct_sortSlice: "distinct xs \<Longrightarrow> distinct (sortSlice lt xs)"
  by (induction xs) (simp_all add: distinct_insertBy set_sortSlice)

lemma sorted_insertBy_After:
  "sorted_wrt After ys \<Longrightarrow> x \<notin> set ys \<Longrightarrow> sorted_wrt After (insertBy After x ys)"
proof (induction ys)
  case Nil
  show ?case by simp
next
  case (Cons y ys)
  show ?case
  proof (cases "After x y")
    case True
    have "\<forall>z\<in>set ys. After x z" using Cons.prems(1) True After_trans by auto
    then show ?thesis using True Cons.prems(1) by simp
  next
    case False
    have "After y x" using False Cons.prems(2) After_total[of x y] by auto
    moreover have "sorted_wrt After (insertBy After x ys)"
      using Cons by simp
    ultimately show ?thesis using False Cons.prems(1) by (auto simp: set_insertBy)
  qed
qed

lemma sorted_sortSlice_After: "distinct ks \<Longrightarrow> sorted_wrt After (sortSlice After ks)"
  by (induction ks) (simp_all add: sorted_insertBy_After set_sortSlice)

lemma sorted_After_unique:
  "sorted_wrt After xs \<Longrightarrow> sorted_wrt After ys \<Longrightarrow> set xs = set ys \<Longrightarrow> xs = ys"
proof (induction xs arbitrary: ys)
  case Nil
  then show ?case by simp
next
  case (Cons x xs)
  obtain y ys' where ys: "ys = y # ys'" using Cons.prems(3) by (cases ys) auto
  have sx: "\<forall>z\<in>set xs. After x z" "sorted_wrt After xs" using Cons.prems(1) by simp_all
  have sy: "\<forall>z\<in>set ys'. After y z" "sorted_wrt After ys'" using Cons.prems(2) ys by simp_all
  have xy: "x = y"
  proof (rule ccontr)
    assume ne: "x \<noteq> y"
    have "x \<in> set ys'" using Cons.prems(3) ys ne by auto
    then have a: "After y x" using sy(1) by simp
    have "y \<in> set xs" using Cons.prems(3) ys ne by auto
    then have "After x y" using sx(1) by simp
    then show False using a After_asym by blast
  qed
  have nx: "x \<notin> set xs" using sx(1) After_irrefl by blast
  have ny: "y \<notin> set ys'" using sy(1) After_irrefl by blast
  have "set xs = set ys'" using Cons.prems(3) ys xy nx ny by auto
  then have "xs = ys'" using Cons.IH sx(2) sy(2) by simp
  then show ?case using xy ys by simp
qed

lemma sortedDays_props:
  assumes "distinct ks"
  shows "sorted_wrt After (sortedDays ks)" "set (sortedDays ks) = set ks"
    "distinct (sortedDays ks)" "length (sortedDays ks) = length ks"
  unfolding sortedDays_def
  using assms by (simp_all add: sorted_sortSlice_After set_sortSlice distinct_sortSlice
      length_sortSlice)

text \<open>Whatever arrangement of the keys is sorted under \<open>After\<close>, it is this one.\<close>

lemma sortedDays_unique:
  assumes "distinct ks" "sorted_wrt After ys" "set ys = set ks"
  shows "ys = sortedDays ks"
  by (rule sorted_After_unique) (simp_all add: sortedDays_props assms)









section \<open>Scores and markers\<close>

text \<open>An integer below \<open>2 ^ 24\<close> is a 32-bit float as it is.\<close>

lemma bitlen_le: "n < 2 ^ k \<Longrightarrow> bitlen n \<le> k"
proof (induction k arbitrary: n)
  case 0
  then show ?case by (simp add: bitlen.simps)
next
  case (Suc k)
  have "n div 2 < 2 ^ k" using Suc.prems by simp
  then have "bitlen (n div 2) \<le> k" by (rule Suc.IH)
  then show ?case by (subst bitlen.simps) simp
qed

lemma float32_small:
  assumes "0 \<le> i" "i < 16777216"
  shows "float32 i = i"
proof -
  have "nat \<bar>i\<bar> < 2 ^ 24" using assms by simp
  then have "bitlen (nat \<bar>i\<bar>) - 24 = 0" using bitlen_le by fastforce
  then show ?thesis unfolding float32_def Let_def using assms by simp
qed

lemma markers_distinct:
  "glowingStar \<noteq> antenna" "glowingStar \<noteq> sparkles" "antenna \<noteq> sparkles"
  unfolding glowingStar_def antenna_def sparkles_def by simp_all

section \<open>Calendar days and day keys\<close>

text \<open>Two instants have the same calendar date exactly when they truncate to the same
  midnight, so counting day keys is counting calendar dates.\<close>

lemma absSeconds_truncate:
  "absSeconds (truncateToDay t) = (absSeconds t div 86400) * 86400"
proof -
  define a where "a = (absSeconds t div 86400) * 86400"
  have e: "absSeconds t = 86400 * (absSeconds t div 86400) + absSeconds t mod 86400" by simp
  have m: "0 \<le> absSeconds t mod 86400" by simp
  have p: "0 \<le> absSeconds t div 86400"
    using absSeconds_range(1)[of t] by (simp add: pos_imp_zdiv_nonneg_iff)
  have r: "0 \<le> a" "a < 18446744073709551616"
    unfolding a_def using e m p absSeconds_range(2)[of t] by linarith+
  have "absSeconds (truncateToDay t) = uint64 (wrap64 (a + absoluteToInternal) + internalToAbsolute)"
    unfolding absSeconds_ext truncateToDay_eq a_def by simp
  also have "\<dots> = uint64 (a + absoluteToInternal + internalToAbsolute)"
    by (rule uint64_add_wrap64)
  also have "\<dots> = uint64 a" unfolding internalToAbsolute_def by simp
  also have "\<dots> = a" using r by (rule uint64_id)
  finally show ?thesis unfolding a_def .
qed

lemma days_truncate:
  "absSeconds (truncateToDay t) div secondsPerDay = absSeconds t div secondsPerDay"
  unfolding absSeconds_truncate secondsPerDay_def by simp

lemma calendarDate_absDate: "calendarDate t = absDate (absSeconds t)"
  unfolding calendarDate_def absDate_Time ..

lemma calendarDate_truncate: "calendarDate (truncateToDay t) = calendarDate t"
  unfolding calendarDate_absDate absDate_def days_truncate ..

text \<open>The time of day of a truncated instant is midnight.\<close>

lemma clock_truncate:
  "Hour (truncateToDay t) = 0" "Minute (truncateToDay t) = 0" "Second (truncateToDay t) = 0"
  "Nanosecond (truncateToDay t) = 0"
proof -
  have a: "(absSeconds t div 86400 * 86400) mod 86400 = 0" by simp
  have b: "(absSeconds t div 86400 * 86400) mod 3600 = 0"
    by (rule mod_eq_0_iff_dvd[THEN iffD2]) (simp add: dvd_mult)
  have c: "(absSeconds t div 86400 * 86400) mod 60 = 0"
    by (rule mod_eq_0_iff_dvd[THEN iffD2]) (simp add: dvd_mult)
  show "Hour (truncateToDay t) = 0"
    unfolding Hour_def absSeconds_truncate secondsPerDay_def a by simp
  show "Minute (truncateToDay t) = 0" unfolding Minute_def absSeconds_truncate b by simp
  show "Second (truncateToDay t) = 0" unfolding Second_def absSeconds_truncate c ..
  show "Nanosecond (truncateToDay t) = 0" unfolding truncateToDay_eq by simp
qed



text \<open>
  From second \<open>- 9223372028715321600\<close> on, the first second of the absolute zero year,
  truncation rounds the Unix second down to a multiple of 86400. Below it the absolute
  seconds have wrapped.
\<close>

lemma days_timeUnix:
  assumes "- 9223372028715321600 \<le> sec" "sec < 9223372036854775808"
  shows "absSeconds (timeUnix sec 0) div 86400 = sec div 86400 + 106751991073094"
proof -
  define q where "q = sec div 86400"
  define r where "r = sec mod 86400"
  have e: "sec = 86400 * q + r" unfolding q_def r_def by simp
  have m: "0 \<le> r" "r < 86400" unfolding r_def by simp_all
  have a: "absSeconds (timeUnix sec 0) = sec + 9223372028715321600"
  proof -
    have "absSeconds (timeUnix sec 0) = uint64 (wrap64 (sec + unixToInternal) + internalToAbsolute)"
      unfolding absSeconds_ext timeUnix_zero by simp
    also have "\<dots> = uint64 (sec + unixToInternal + internalToAbsolute)"
      by (rule uint64_add_wrap64)
    also have "\<dots> = uint64 (sec + 9223372028715321600)"
      by (rule arg_cong[where f = uint64]) (simp add: offsets)
    also have "\<dots> = sec + 9223372028715321600" using assms by (intro uint64_id) linarith+
    finally show ?thesis .
  qed
  have "sec + 9223372028715321600 = 86400 * (q + 106751991073094) + r"
    unfolding e by simp
  then have "(sec + 9223372028715321600) div 86400 = q + 106751991073094"
    using m by (metis div_mod_unique(1))
  then show ?thesis unfolding a q_def .
qed

lemma Unix_truncate_timeUnix:
  assumes "- 9223372028715321600 \<le> sec" "sec < 9223372036854775808"
  shows "Unix (truncateToDay (timeUnix sec 0)) = (sec div 86400) * 86400"
proof -
  define q where "q = sec div 86400"
  define r where "r = sec mod 86400"
  have e: "sec = 86400 * q + r" unfolding q_def r_def by simp
  have m: "0 \<le> r" "r < 86400" unfolding r_def by simp_all
  have d: "absSeconds (timeUnix sec 0) div 86400 = q + 106751991073094"
    unfolding q_def using assms by (rule days_timeUnix)
  have lo: "- 9223372028715321600 \<le> q * 86400"
  proof -
    have "- 106751991073094 \<le> q"
    proof (rule ccontr)
      assume "\<not> - 106751991073094 \<le> q"
      then have "q \<le> - 106751991073095" by linarith
      then show False using e m assms(1) by linarith
    qed
    then show ?thesis by linarith
  qed
  have hi: "q * 86400 < 9223372036854775808" using e m assms(2) by linarith
  have "Unix (truncateToDay (timeUnix sec 0))
        = wrap64 (wrap64 ((q + 106751991073094) * 86400 + absoluteToInternal) + internalToUnix)"
    unfolding Unix_def truncateToDay_eq d by simp
  also have "\<dots> = wrap64 ((q + 106751991073094) * 86400 + absoluteToInternal + internalToUnix)"
    by (rule wrap64_add_wrap64)
  also have "\<dots> = wrap64 (q * 86400)"
    by (rule arg_cong[where f = wrap64]) (simp add: offsets algebra_simps)
  also have "\<dots> = q * 86400" using lo hi by (intro wrap64_id) linarith+
  finally show ?thesis unfolding q_def .
qed

lemma Unix_dayOf:
  assumes "- 9223372028715321600 \<le> AiringAt r" "AiringAt r < 9223372036854775808"
  shows "Unix (dayOf r) = (AiringAt r div 86400) * 86400"
  unfolding dayOf_def showInfoOf_def using Unix_truncate_timeUnix[OF assms] by simp








section \<open>The run that prints a report\<close>



section \<open>The claims\<close>

text \<open>
  Claim C1. For every list of airing records, the buckets the organizer returns have
  distinct keys; the ShowInfo of every record is in the bucket whose key is its airing
  time truncated to midnight UTC; and whatever bucket holds a ShowInfo, the key of that
  bucket is the airing time of the ShowInfo truncated to midnight UTC: it has the year,
  month and day of the airing time and the time of day 00:00:00.0. So every ShowInfo is
  in one bucket only. For a record whose timestamp is at least \<open>- 9223372028715321600\<close>
  (the first second of the library's absolute zero year), the Unix second of the key is
  the timestamp rounded down to a multiple of 86400; for a smaller timestamp the
  library's date has wrapped, and the key is still built from that date (the witness
  evaluates the least 64-bit timestamp, whose key has the Unix second
  \<open>9223372036854720000\<close>, in one bucket with the greatest timestamp).
\<close>
theorem organize_one_bucket_per_show:
  "distinct (map fst (organizeShowsByDay rs)) \<and>
   (\<forall>r\<in>set rs. \<exists>ss. (truncateToDay (AiringTime (showInfoOf r)), ss) \<in> set (organizeShowsByDay rs)
                      \<and> showInfoOf r \<in> set ss) \<and>
   (\<forall>k ss s. (k, ss) \<in> set (organizeShowsByDay rs) \<and> s \<in> set ss \<longrightarrow>
      k = truncateToDay (AiringTime s) \<and>
      calendarDate k = calendarDate (AiringTime s) \<and>
      Hour k = 0 \<and> Minute k = 0 \<and> Second k = 0 \<and> Nanosecond k = 0) \<and>
   (\<forall>r\<in>set rs. - 9223372028715321600 \<le> AiringAt r \<and> AiringAt r < 9223372036854775808 \<longrightarrow>
      Unix (truncateToDay (AiringTime (showInfoOf r))) = (AiringAt r div 86400) * 86400)"
proof (intro conjI ballI allI impI)
  show "distinct (map fst (organizeShowsByDay rs))" by (rule organize_distinct)
next
  fix r assume r: "r \<in> set rs"
  have "showInfoOf r \<in> set (map showInfoOf (filter (\<lambda>r'. dayOf r' = dayOf r) rs))"
    using r by simp
  then show "\<exists>ss. (truncateToDay (AiringTime (showInfoOf r)), ss) \<in> set (organizeShowsByDay rs)
                  \<and> showInfoOf r \<in> set ss"
    using organize_has_bucket[OF r] unfolding dayOf_def by blast
next
  fix k ss s assume a: "(k, ss) \<in> set (organizeShowsByDay rs) \<and> s \<in> set ss"
  have ss: "ss = map showInfoOf (filter (\<lambda>r. dayOf r = k) rs)"
    using organize_bucket a by simp
  show k: "k = truncateToDay (AiringTime s)"
    using a unfolding ss dayOf_def by auto
  show "calendarDate k = calendarDate (AiringTime s)" unfolding k by (rule calendarDate_truncate)
  show "Hour k = 0" "Minute k = 0" "Second k = 0" "Nanosecond k = 0"
    unfolding k by (rule clock_truncate)+
next
  fix r assume "r \<in> set rs"
    and "- 9223372028715321600 \<le> AiringAt r \<and> AiringAt r < 9223372036854775808"
  then show "Unix (truncateToDay (AiringTime (showInfoOf r))) = (AiringAt r div 86400) * 86400"
    using Unix_dayOf[of r] unfolding dayOf_def by simp
qed

theorem organize_one_bucket_per_show_witness:
  "(instant 1714694400,
    [\<lparr>Title = ''Foo'', EpisodeNumber = 12, AverageScore = 80, AiringTime = instant 1714700000\<rparr>,
     \<lparr>Title = ''Bar'', EpisodeNumber = 3, AverageScore = 75, AiringTime = instant 1714694400\<rparr>])
     \<in> set (organizeShowsByDay weekSample) \<and>
   instant 1714694400 = truncateToDay (instant 1714700000) \<and>
   instant 1714694400 = truncateToDay (instant 1714694400) \<and>
   Unix (truncateToDay (instant 1714700000)) = 1714694400 \<and>
   map (\<lambda>p. (Unix (fst p), map Title (snd p))) (organizeShowsByDay wrapSample)
     = [(9223372036854720000, [''Last'', ''First''])] \<and>
   calendarDate (truncateToDay (instant (- 9223372036854775808)))
     = calendarDate (instant (- 9223372036854775808)) \<and>
   calendarDate (instant (- 9223372036854775808)) = (292277026596, 12, 4)"
proof -
  let ?ss = "[\<lparr>Title = ''Foo'', EpisodeNumber = 12, AverageScore = 80,
               AiringTime = instant 1714700000\<rparr>,
             \<lparr>Title = ''Bar'', EpisodeNumber = 3, AverageScore = 75,
               AiringTime = instant 1714694400\<rparr>]"
  have m: "(instant 1714694400, ?ss) \<in> set (organizeShowsByDay weekSample)"
    unfolding organize_weekSample by simp
  note t = organize_one_bucket_per_show[of weekSample]
  have b: "\<forall>s\<in>set ?ss. instant 1714694400 = truncateToDay (AiringTime s)"
    using t m by blast
  have e1: "instant 1714694400 = truncateToDay (AiringTime (?ss ! 0))"
    by (rule b[rule_format]) simp
  have e2: "instant 1714694400 = truncateToDay (AiringTime (?ss ! 1))"
    by (rule b[rule_format]) simp
  have s1: "AiringTime (?ss ! 0) = instant 1714700000" by simp
  have s2: "AiringTime (?ss ! 1) = instant 1714694400" by simp
  let ?r = "airing 12 1714700000 ''Foo'' '''' 80"
  have r: "?r \<in> set weekSample" unfolding weekSample_def by simp
  have ra: "- 9223372028715321600 \<le> AiringAt ?r \<and> AiringAt ?r < 9223372036854775808"
    unfolding airing_def by simp
  have "Unix (truncateToDay (AiringTime (showInfoOf ?r))) = (AiringAt ?r div 86400) * 86400"
    using t r ra by blast
  then have u: "Unix (truncateToDay (instant 1714700000)) = 1714694400"
    unfolding showInfoOf_def airing_def instant_def by simp
  have w: "map (\<lambda>p. (Unix (fst p), map Title (snd p))) (organizeShowsByDay wrapSample)
           = [(9223372036854720000, [''Last'', ''First''])]"
    by code_simp
  let ?lo = "airing 2 (- 9223372036854775808) ''First'' '''' 0"
  have lo: "?lo \<in> set wrapSample" unfolding wrapSample_def by simp
  obtain ss where ms: "(truncateToDay (AiringTime (showInfoOf ?lo)), ss)
                         \<in> set (organizeShowsByDay wrapSample)"
    and ls: "showInfoOf ?lo \<in> set ss"
    using organize_one_bucket_per_show[of wrapSample] lo by blast
  have "calendarDate (truncateToDay (AiringTime (showInfoOf ?lo)))
        = calendarDate (AiringTime (showInfoOf ?lo))"
    using organize_one_bucket_per_show[of wrapSample] ms ls by blast
  then have c: "calendarDate (truncateToDay (instant (- 9223372036854775808)))
                = calendarDate (instant (- 9223372036854775808))"
    unfolding showInfoOf_def airing_def instant_def by simp
  have v: "calendarDate (instant (- 9223372036854775808)) = (292277026596, 12, 4)"
    by code_simp
  show ?thesis using m e1 e2 u w c v unfolding s1 s2 by blast
qed

text \<open>
  Claim C2. The ShowInfo values in the buckets of the organizer are, with multiplicity,
  the projections of the airing records, and the title of the projection of a record is
  its English title when that title is not empty and its Romaji title otherwise. The
  witness below is the claim's example: an empty English title with Romaji title Foo
  resolves to Foo, and English title Bar with Romaji title Baz resolves to Bar.
\<close>
theorem organize_resolves_titles:
  "mset (concat (map snd (organizeShowsByDay rs))) = mset (map showInfoOf rs) \<and>
   (\<forall>r. Title (showInfoOf r) =
          (if English (MediaTitle (Media r)) \<noteq> '''' then English (MediaTitle (Media r))
           else Romaji (MediaTitle (Media r))))"
  by (simp add: organize_mset showInfoOf_def resolvedTitle_def)

theorem organize_resolves_titles_witness:
  "image_mset Title (mset (concat (map snd
      (organizeShowsByDay [airing 1 1714700000 ''Foo'' '''' 80,
                           airing 2 1714600000 ''Baz'' ''Bar'' 60]))))
   = {#''Foo'', ''Bar''#}"
  using organize_resolves_titles[of "[airing 1 1714700000 ''Foo'' '''' 80,
                           airing 2 1714600000 ''Baz'' ''Bar'' 60]"]
  by (simp add: airing_def)

text \<open>
  Claim C3. For a show whose average score is between 0 and 100, the rendered line is
  the entry style applied to a text that starts with the status marker and ends with the
  score suffix. The marker is the glowing star exactly when the score is above 75 (so at
  76 and not at 75), the antenna exactly when the score is 0, and the sparkles otherwise.
  The suffix is the score followed by /100 when the score is positive, and the label
  No rating, a text different from 0/100, when the score is 0. The witness evaluates the
  scores 76, 75, 40 and 0.
\<close>
theorem score_markers_and_suffix:
  assumes "0 \<le> AverageScore s" "AverageScore s \<le> 100"
  shows "showEntry sty s =
           showEntryStyle sty
             (emojiOf (AverageScore s) @ '' '' @
              titleStyle sty (Title s) @
              bulletStyle sty ('' '' @ bullet @ '' '') @
              episodeStyle sty (''Ep '' @ itoa (EpisodeNumber s)) @
              timeStyle sty ('' '' @ clockFace @ '' '' @ formatClock (AiringTime s)) @
              (if AverageScore s > 0
               then scoreStyle sty (blackStar @ '' '' @ itoa (AverageScore s) @ ''/100'')
               else noScoreStyle sty (blackStar @ '' No rating''))) \<and>
         (emojiOf (AverageScore s) = glowingStar \<longleftrightarrow> AverageScore s > 75) \<and>
         (emojiOf (AverageScore s) = antenna \<longleftrightarrow> AverageScore s = 0) \<and>
         (emojiOf (AverageScore s) = sparkles \<longleftrightarrow> AverageScore s \<le> 75 \<and> AverageScore s \<noteq> 0) \<and>
         blackStar @ '' No rating'' \<noteq> blackStar @ '' 0/100''"
proof -
  have f: "AverageScore s > 0 \<Longrightarrow> float32 (AverageScore s) = AverageScore s"
    using assms by (intro float32_small) linarith+
  have e: "showEntry sty s =
           showEntryStyle sty
             (emojiOf (AverageScore s) @ '' '' @
              titleStyle sty (Title s) @
              bulletStyle sty ('' '' @ bullet @ '' '') @
              episodeStyle sty (''Ep '' @ itoa (EpisodeNumber s)) @
              timeStyle sty ('' '' @ clockFace @ '' '' @ formatClock (AiringTime s)) @
              (if AverageScore s > 0
               then scoreStyle sty (blackStar @ '' '' @ itoa (AverageScore s) @ ''/100'')
               else noScoreStyle sty (blackStar @ '' No rating'')))"
    unfolding showEntry_def Let_def renderScore_def fmtFloat0_def using f by simp
  have m: "(emojiOf (AverageScore s) = glowingStar \<longleftrightarrow> AverageScore s > 75)"
    "(emojiOf (AverageScore s) = antenna \<longleftrightarrow> AverageScore s = 0)"
    "(emojiOf (AverageScore s) = sparkles \<longleftrightarrow> AverageScore s \<le> 75 \<and> AverageScore s \<noteq> 0)"
    unfolding emojiOf_def using markers_distinct by auto
  have l: "blackStar @ '' No rating'' \<noteq> blackStar @ '' 0/100''" by simp
  show ?thesis using e m l by blast
qed

theorem score_markers_and_suffix_witness:
  "showEntry plainStyles \<lparr>Title = ''Foo'', EpisodeNumber = 12, AverageScore = 76,
                          AiringTime = instant 1714700000\<rparr>
     = glowingStar @ '' Foo '' @ bullet @ '' Ep 12 '' @ clockFace @ '' 1:33 AM''
       @ blackStar @ '' 76/100'' \<and>
   showEntry plainStyles \<lparr>Title = ''Foo'', EpisodeNumber = 12, AverageScore = 75,
                          AiringTime = instant 1714700000\<rparr>
     = sparkles @ '' Foo '' @ bullet @ '' Ep 12 '' @ clockFace @ '' 1:33 AM''
       @ blackStar @ '' 75/100'' \<and>
   showEntry plainStyles \<lparr>Title = ''Foo'', EpisodeNumber = 12, AverageScore = 40,
                          AiringTime = instant 1714700000\<rparr>
     = sparkles @ '' Foo '' @ bullet @ '' Ep 12 '' @ clockFace @ '' 1:33 AM''
       @ blackStar @ '' 40/100'' \<and>
   showEntry plainStyles \<lparr>Title = ''Foo'', EpisodeNumber = 12, AverageScore = 0,
                          AiringTime = instant 1714700000\<rparr>
     = antenna @ '' Foo '' @ bullet @ '' Ep 12 '' @ clockFace @ '' 1:33 AM''
       @ blackStar @ '' No rating''"
proof -
  have i12: "itoa 12 = ''12''" "itoa 76 = ''76''" "itoa 75 = ''75''" "itoa 40 = ''40''"
    by code_simp+
  have c: "formatClock (instant 1714700000) = ''1:33 AM''" by code_simp
  have e: "emojiOf 76 = glowingStar" "emojiOf 75 = sparkles" "emojiOf 40 = sparkles"
    "emojiOf 0 = antenna" unfolding emojiOf_def by simp_all
  show ?thesis
    using score_markers_and_suffix[of "\<lparr>Title = ''Foo'', EpisodeNumber = 12, AverageScore = 76,
                          AiringTime = instant 1714700000\<rparr>" plainStyles]
      score_markers_and_suffix[of "\<lparr>Title = ''Foo'', EpisodeNumber = 12, AverageScore = 75,
                          AiringTime = instant 1714700000\<rparr>" plainStyles]
      score_markers_and_suffix[of "\<lparr>Title = ''Foo'', EpisodeNumber = 12, AverageScore = 40,
                          AiringTime = instant 1714700000\<rparr>" plainStyles]
      score_markers_and_suffix[of "\<lparr>Title = ''Foo'', EpisodeNumber = 12, AverageScore = 0,
                          AiringTime = instant 1714700000\<rparr>" plainStyles]
    by (simp add: plainStyles_def i12 c e)
qed





text \<open>
  Claim C6. Organizing the empty list of records gives the empty map, and only the empty
  list does. When the request, the reading and the decoding succeed and the map of the
  decoded records is empty, the run posts the request, prints the fixed message that no
  episode aired, closes the response body, and prints nothing else: the renderer is not
  called.
\<close>
theorem empty_input_prints_no_episodes:
  "organizeShowsByDay [] = [] \<and>
   (organizeShowsByDay rs = [] \<longleftrightarrow> rs = []) \<and>
   (jsonMarshal w (buildQuery (timeNow w)) = Inr requestBody \<and>
    httpPost w ''https://graphql.anilist.co'' ''application/json'' requestBody = Inr resp \<and>
    readAll w resp = Inr body \<and>
    jsonUnmarshal w body = Inr schedules \<and>
    organizeShowsByDay schedules = []
    \<longrightarrow> main sty w =
          [HttpPost ''https://graphql.anilist.co'' ''application/json'' requestBody,
           Println (appStyle sty noEpisodesMessage),
           CloseBody])"
proof (intro conjI impI)
  show "organizeShowsByDay [] = []" unfolding organizeShowsByDay_def by simp
  show "organizeShowsByDay rs = [] \<longleftrightarrow> rs = []" by (rule organize_empty_iff)
next
  assume a: "jsonMarshal w (buildQuery (timeNow w)) = Inr requestBody \<and>
    httpPost w ''https://graphql.anilist.co'' ''application/json'' requestBody = Inr resp \<and>
    readAll w resp = Inr body \<and>
    jsonUnmarshal w body = Inr schedules \<and>
    organizeShowsByDay schedules = []"
  show "main sty w =
          [HttpPost ''https://graphql.anilist.co'' ''application/json'' requestBody,
           Println (appStyle sty noEpisodesMessage),
           CloseBody]"
    unfolding main_def Let_def using a by simp
qed

theorem empty_input_prints_no_episodes_witness:
  "main plainStyles
     (scriptedWorld (instant 1714521600) (Inr ''request'') (Inr ()) (Inr ''response'') (Inr []))
   = [HttpPost ''https://graphql.anilist.co'' ''application/json'' ''request'',
      Println (sparkles @ '' No new episodes aired in the past week '' @ sparkles),
      CloseBody]"
  using empty_input_prints_no_episodes[of "[]"
      "scriptedWorld (instant 1714521600) (Inr ''request'') (Inr ()) (Inr ''response'') (Inr [])"
      "''request''" "()" "''response''" "[]" plainStyles]
  by (simp add: scriptedWorld_def plainStyles_def noEpisodesMessage_def)



text \<open>
  Claim C8. For every instant \<open>now\<close> (its nanoseconds within one second, as every
  reading of the clock has them), the query is the fixed text below, which asks for one
  page of at most 100 airing schedules with \<open>airingAt_greater\<close> the Unix second of
  \<open>now\<close> minus 7 days and \<open>airingAt_lesser\<close> the Unix second of \<open>now\<close>, sorted by
  \<open>TIME_DESC\<close>, and selects the episode, the airing time, the Romaji and English titles
  and the average score. The Unix second of \<open>now\<close> minus 7 days is that of \<open>now\<close> minus
  7 times 86400 in 64 bits; from the Unix second \<open>- 9223372036854171008\<close> on, seven days
  after the least 64-bit second and so for every reading of a clock, that is the plain
  difference. What the two bounds and the sort key mean is decided by the remote
  service; the theorem is about the text sent.
\<close>
theorem query_window:
  assumes "0 \<le> Nanosecond now" "Nanosecond now < 1000000000"
  shows "buildQuery now =
     newline @
     tab @ ''{'' @ newline @
     tab @ tab @ ''Page(perPage: 100) {'' @ newline @
     tab @ tab @ tab @ ''airingSchedules(airingAt_greater: ''
        @ itoa (wrap64 (Unix now - 7 * 86400))
        @ '', airingAt_lesser: '' @ itoa (Unix now) @ '', sort: TIME_DESC) {'' @ newline @
     tab @ tab @ tab @ tab @ ''episode'' @ newline @
     tab @ tab @ tab @ tab @ ''airingAt'' @ newline @
     tab @ tab @ tab @ tab @ ''media {'' @ newline @
     tab @ tab @ tab @ tab @ tab @ ''title {'' @ newline @
     tab @ tab @ tab @ tab @ tab @ tab @ ''romaji'' @ newline @
     tab @ tab @ tab @ tab @ tab @ tab @ ''english'' @ newline @
     tab @ tab @ tab @ tab @ tab @ ''}'' @ newline @
     tab @ tab @ tab @ tab @ tab @ ''averageScore'' @ newline @
     tab @ tab @ tab @ tab @ ''}'' @ newline @
     tab @ tab @ tab @ ''}'' @ newline @
     tab @ tab @ ''}'' @ newline @
     tab @ ''}'' @ newline @
     tab \<and>
   (- 9223372036854171008 \<le> Unix now \<longrightarrow>
      wrap64 (Unix now - 7 * 86400) = Unix now - 7 * 86400)"
proof -
  have "Unix (AddDate now 0 0 (- 7)) = wrap64 (Unix now - 7 * 86400)"
    unfolding Unix_AddDate_days[OF assms] secondsPerDay_def by simp
  then have q: "buildQuery now = queryText (wrap64 (Unix now - 7 * 86400)) (Unix now)"
    unfolding buildQuery_def Let_def by simp
  have u: "Unix now < 9223372036854775808" unfolding Unix_def by (rule wrap64_range)
  have "wrap64 (Unix now - 7 * 86400) = Unix now - 7 * 86400"
    if "- 9223372036854171008 \<le> Unix now"
    using that u by (intro wrap64_id) linarith+
  then show ?thesis unfolding q queryText_def by simp
qed

theorem query_window_witness:
  "buildQuery (timeUnix 1714521600 123456789) =
     newline @
     tab @ ''{'' @ newline @
     tab @ tab @ ''Page(perPage: 100) {'' @ newline @
     tab @ tab @ tab @ ''airingSchedules(airingAt_greater: 1713916800, airingAt_lesser: 1714521600, sort: TIME_DESC) {'' @ newline @
     tab @ tab @ tab @ tab @ ''episode'' @ newline @
     tab @ tab @ tab @ tab @ ''airingAt'' @ newline @
     tab @ tab @ tab @ tab @ ''media {'' @ newline @
     tab @ tab @ tab @ tab @ tab @ ''title {'' @ newline @
     tab @ tab @ tab @ tab @ tab @ tab @ ''romaji'' @ newline @
     tab @ tab @ tab @ tab @ tab @ tab @ ''english'' @ newline @
     tab @ tab @ tab @ tab @ tab @ ''}'' @ newline @
     tab @ tab @ tab @ tab @ tab @ ''averageScore'' @ newline @
     tab @ tab @ tab @ tab @ ''}'' @ newline @
     tab @ tab @ tab @ ''}'' @ newline @
     tab @ tab @ ''}'' @ newline @
     tab @ ''}'' @ newline @
     tab \<and>
   Unix (AddDate (timeUnix (- 9223372036854775808) 0) 0 0 (- 7)) = 9223372036854171008"
proof -
  let ?now = "timeUnix 1714521600 123456789"
  have i: "itoa 1713916800 = ''1713916800''" "itoa 1714521600 = ''1714521600''"
    by (simp_all add: itoa_def digitsOf.simps)
  have n: "0 \<le> Nanosecond ?now" "Nanosecond ?now < 1000000000"
    unfolding timeUnix_def by simp_all
  have u: "Unix ?now = 1714521600" by code_simp
  have r: "- 9223372036854171008 \<le> Unix ?now" unfolding u by simp
  note t = query_window[OF n]
  have w: "wrap64 1713916800 = 1713916800"
    using t[THEN conjunct2] r unfolding u by simp
  have q: "buildQuery ?now =
     newline @
     tab @ ''{'' @ newline @
     tab @ tab @ ''Page(perPage: 100) {'' @ newline @
     tab @ tab @ tab @ ''airingSchedules(airingAt_greater: 1713916800, airingAt_lesser: 1714521600, sort: TIME_DESC) {'' @ newline @
     tab @ tab @ tab @ tab @ ''episode'' @ newline @
     tab @ tab @ tab @ tab @ ''airingAt'' @ newline @
     tab @ tab @ tab @ tab @ ''media {'' @ newline @
     tab @ tab @ tab @ tab @ tab @ ''title {'' @ newline @
     tab @ tab @ tab @ tab @ tab @ tab @ ''romaji'' @ newline @
     tab @ tab @ tab @ tab @ tab @ tab @ ''english'' @ newline @
     tab @ tab @ tab @ tab @ tab @ ''}'' @ newline @
     tab @ tab @ tab @ tab @ tab @ ''averageScore'' @ newline @
     tab @ tab @ tab @ tab @ ''}'' @ newline @
     tab @ tab @ tab @ ''}'' @ newline @
     tab @ tab @ ''}'' @ newline @
     tab @ ''}'' @ newline @
     tab"
    using t[THEN conjunct1] unfolding u by (simp add: i w)
  have x: "Unix (AddDate (timeUnix (- 9223372036854775808) 0) 0 0 (- 7)) = 9223372036854171008"
    by code_simp
  show ?thesis using q x by blast
qed

text \<open>
  Claim C9. In each of the four failures (encoding the request, the HTTP request,
  reading the response body, decoding the response) the run prints one line, the label
  of the step, a colon and the message of the error, and ends: the request is posted at
  most once, no report and no other line is printed, and the response body, once
  obtained, is closed.
\<close>
theorem errors_are_terminal:
  "(jsonMarshal w (buildQuery (timeNow w)) = Inl err
    \<longrightarrow> main sty w =
          [Println (errorStyle sty (''Error creating request: '' @ errorMessage err))]) \<and>
   (jsonMarshal w (buildQuery (timeNow w)) = Inr requestBody \<and>
    httpPost w ''https://graphql.anilist.co'' ''application/json'' requestBody = Inl err
    \<longrightarrow> main sty w =
          [HttpPost ''https://graphql.anilist.co'' ''application/json'' requestBody,
           Println (errorStyle sty (''Error making request: '' @ errorMessage err))]) \<and>
   (jsonMarshal w (buildQuery (timeNow w)) = Inr requestBody \<and>
    httpPost w ''https://graphql.anilist.co'' ''application/json'' requestBody = Inr resp \<and>
    readAll w resp = Inl err
    \<longrightarrow> main sty w =
          [HttpPost ''https://graphql.anilist.co'' ''application/json'' requestBody,
           Println (errorStyle sty (''Error reading response: '' @ errorMessage err)),
           CloseBody]) \<and>
   (jsonMarshal w (buildQuery (timeNow w)) = Inr requestBody \<and>
    httpPost w ''https://graphql.anilist.co'' ''application/json'' requestBody = Inr resp \<and>
    readAll w resp = Inr body \<and>
    jsonUnmarshal w body = Inl err
    \<longrightarrow> main sty w =
          [HttpPost ''https://graphql.anilist.co'' ''application/json'' requestBody,
           Println (errorStyle sty (''Error parsing response: '' @ errorMessage err)),
           CloseBody])"
  unfolding main_def Let_def printError_def by simp

theorem errors_are_terminal_witness:
  "main plainStyles
     (scriptedWorld (instant 1714521600) (Inl (Error ''unsupported type'')) (Inr ())
        (Inr ''response'') (Inr weekSample))
   = [Println ''Error creating request: unsupported type''] \<and>
   main plainStyles
     (scriptedWorld (instant 1714521600) (Inr ''request'') (Inl (Error ''no such host''))
        (Inr ''response'') (Inr weekSample))
   = [HttpPost ''https://graphql.anilist.co'' ''application/json'' ''request'',
      Println ''Error making request: no such host''] \<and>
   main plainStyles
     (scriptedWorld (instant 1714521600) (Inr ''request'') (Inr ())
        (Inl (Error ''unexpected EOF'')) (Inr weekSample))
   = [HttpPost ''https://graphql.anilist.co'' ''application/json'' ''request'',
      Println ''Error reading response: unexpected EOF'',
      CloseBody] \<and>
   main plainStyles
     (scriptedWorld (instant 1714521600) (Inr ''request'') (Inr ())
        (Inr ''response'') (Inl (Error ''invalid character'')))
   = [HttpPost ''https://graphql.anilist.co'' ''application/json'' ''request'',
      Println ''Error parsing response: invalid character'',
      CloseBody]"
proof -
  let ?w1 = "scriptedWorld (instant 1714521600) (Inl (Error ''unsupported type'')) (Inr ())
        (Inr ''response'') (Inr weekSample)"
  let ?w2 = "scriptedWorld (instant 1714521600) (Inr ''request'') (Inl (Error ''no such host''))
        (Inr ''response'') (Inr weekSample)"
  let ?w3 = "scriptedWorld (instant 1714521600) (Inr ''request'') (Inr ())
        (Inl (Error ''unexpected EOF'')) (Inr weekSample)"
  let ?w4 = "scriptedWorld (instant 1714521600) (Inr ''request'') (Inr ())
        (Inr ''response'') (Inl (Error ''invalid character''))"
  have a: "main plainStyles ?w1 = [Println ''Error creating request: unsupported type'']"
    using errors_are_terminal[of ?w1 "Error ''unsupported type''" plainStyles]
    by (simp add: scriptedWorld_def plainStyles_def)
  have b: "main plainStyles ?w2
   = [HttpPost ''https://graphql.anilist.co'' ''application/json'' ''request'',
      Println ''Error making request: no such host'']"
    using errors_are_terminal[of ?w2 "Error ''no such host''" plainStyles "''request''"]
    by (simp add: scriptedWorld_def plainStyles_def)
  have c: "main plainStyles ?w3
   = [HttpPost ''https://graphql.anilist.co'' ''application/json'' ''request'',
      Println ''Error reading response: unexpected EOF'', CloseBody]"
    using errors_are_terminal[of ?w3 "Error ''unexpected EOF''" plainStyles "''request''" "()"]
    by (simp add: scriptedWorld_def plainStyles_def)
  have d: "main plainStyles ?w4
   = [HttpPost ''https://graphql.anilist.co'' ''application/json'' ''request'',
      Println ''Error parsing response: invalid character'', CloseBody]"
    using errors_are_terminal[of ?w4 "Error ''invalid character''" plainStyles "''request''" "()"
        "''response''"]
    by (simp add: scriptedWorld_def plainStyles_def)
  show ?thesis using a b c d by blast
qed

text \<open>
  Claim C10. For a show whose average score is negative, the rendered line ends with the
  No rating suffix, as for the score 0, but starts with the default marker (sparkles) and
  not with the antenna that the score 0 gets: the condition of the suffix is
  \<open>score > 0\<close>, the condition of the antenna is \<open>score = 0\<close>.
\<close>
theorem negative_score_branches_disagree:
  assumes "AverageScore s < 0"
  shows "emojiOf (AverageScore s) = sparkles \<and>
         emojiOf (AverageScore s) \<noteq> antenna \<and>
         renderScore sty (AverageScore s) = noScoreStyle sty (blackStar @ '' No rating'') \<and>
         showEntry sty s =
           showEntryStyle sty
             (sparkles @ '' '' @
              titleStyle sty (Title s) @
              bulletStyle sty ('' '' @ bullet @ '' '') @
              episodeStyle sty (''Ep '' @ itoa (EpisodeNumber s)) @
              timeStyle sty ('' '' @ clockFace @ '' '' @ formatClock (AiringTime s)) @
              noScoreStyle sty (blackStar @ '' No rating''))"
  using assms markers_distinct
  unfolding showEntry_def Let_def renderScore_def emojiOf_def by simp

theorem negative_score_branches_disagree_witness:
  "showEntry plainStyles \<lparr>Title = ''Foo'', EpisodeNumber = 12, AverageScore = - 5,
                          AiringTime = instant 1714700000\<rparr>
     = sparkles @ '' Foo '' @ bullet @ '' Ep 12 '' @ clockFace @ '' 1:33 AM''
       @ blackStar @ '' No rating'' \<and>
   emojiOf (- 5) \<noteq> antenna \<and>
   showEntry plainStyles \<lparr>Title = ''Foo'', EpisodeNumber = 12, AverageScore = 0,
                          AiringTime = instant 1714700000\<rparr>
     = antenna @ '' Foo '' @ bullet @ '' Ep 12 '' @ clockFace @ '' 1:33 AM''
       @ blackStar @ '' No rating''"
proof -
  have i12: "itoa 12 = ''12''" by code_simp
  have c: "formatClock (instant 1714700000) = ''1:33 AM''" by code_simp
  have z: "showEntry plainStyles \<lparr>Title = ''Foo'', EpisodeNumber = 12, AverageScore = 0,
                          AiringTime = instant 1714700000\<rparr>
     = antenna @ '' Foo '' @ bullet @ '' Ep 12 '' @ clockFace @ '' 1:33 AM''
       @ blackStar @ '' No rating''"
    unfolding showEntry_def Let_def renderScore_def emojiOf_def
    by (simp add: plainStyles_def i12 c)
  let ?s = "\<lparr>Title = ''Foo'', EpisodeNumber = 12, AverageScore = - 5,
             AiringTime = instant 1714700000\<rparr>"
  have n: "AverageScore ?s < 0" by simp
  note t = negative_score_branches_disagree[OF n, of plainStyles]
  have a: "showEntry plainStyles ?s
     = sparkles @ '' Foo '' @ bullet @ '' Ep 12 '' @ clockFace @ '' 1:33 AM''
       @ blackStar @ '' No rating''"
    using t[THEN conjunct2, THEN conjunct2, THEN conjunct2]
    by (simp add: plainStyles_def i12 c)
  have b: "emojiOf (- 5) \<noteq> antenna"
    using t[THEN conjunct2, THEN conjunct1] by simp
  show ?thesis using a b z by blast
qed


end
